theory Spec2Isabelle
  imports Complex_Main "HOL-Library.Word"
begin

section \<open>Numbers and dense arrays\<close>

text \<open>
  The program computes with C++ \<open>double\<close>. Timestamps, pixel traces, depths and
  calibration parameters are modelled as \<open>real\<close>: comparisons and algebra are exact, and
  rounding, infinities and NaN are outside this part of the model. A real quotient
  stands for the code's quotient only where the divisor is not zero; a statement that
  rests on the value of a quotient says so. The flow vector of \<open>ExtractNormFlows\<close>,
  whose divisor can vanish on a successful fit, is computed with the IEEE-754 special
  values written out, see the type \<open>double\<close> below. The pixel coordinates of an event
  are 16-bit words; the \<open>int\<close> loop counters and sizes stay far from the bounds of
  their type and are unbounded integers.

  A dense two-dimensional array (\<open>Eigen::MatrixXd\<close>, \<open>cv::Mat\<close>) is its number of rows
  and columns and a cell function over (row, column). A read or write outside the
  dimensions trips the library's index assertion (and is undefined without it); the
  operations below check \<open>in_grid\<close> first and fail there.
\<close>

record 'a grid =
  g_rows :: int
  g_cols :: int
  g_at :: "int \<Rightarrow> int \<Rightarrow> 'a"

definition grid_const :: "int \<Rightarrow> int \<Rightarrow> 'a \<Rightarrow> 'a grid" where
  "grid_const r c v = \<lparr>g_rows = r, g_cols = c, g_at = (\<lambda>_ _. v)\<rparr>"

definition in_grid :: "'a grid \<Rightarrow> int \<Rightarrow> int \<Rightarrow> bool" where
  "in_grid m r c = (0 \<le> r \<and> r < g_rows m \<and> 0 \<le> c \<and> c < g_cols m)"

definition grid_set :: "'a grid \<Rightarrow> int \<Rightarrow> int \<Rightarrow> 'a \<Rightarrow> 'a grid" where
  "grid_set m r c v = m\<lparr>g_at := (g_at m)(r := (g_at m r)(c := v))\<rparr>"

text \<open>
  A failed index assertion of a matrix access, and the \<open>std::out_of_range\<close> that
  \<open>std::vector::at\<close> throws, are values: a fallible operation returns \<open>error + 'a\<close>.
\<close>

datatype error = IndexOutOfRange | VectorOutOfRange

type_synonym uchar = "8 word"
type_synonym Vec3b = "uchar \<times> uchar \<times> uchar"

section \<open>Events\<close>

text \<open>
  \<open>Event\<close> and \<open>EventArray\<close> are declared outside the given sources; the code reads an
  event through \<open>GetTimestamp\<close>, \<open>GetPos\<close> (a pair of \<open>uint16_t\<close>) and \<open>GetPolarity\<close>,
  and builds an array from a reference timestamp and the events.
\<close>

record Event =
  ev_timestamp :: real
  ev_pos :: "16 word \<times> 16 word"
  ev_polarity :: bool

definition Event_Create :: "real \<Rightarrow> 16 word \<times> 16 word \<Rightarrow> bool \<Rightarrow> Event" where
  "Event_Create t p pol = \<lparr>ev_timestamp = t, ev_pos = p, ev_polarity = pol\<rparr>"

record EventArray =
  ea_timestamp :: real
  ea_events :: "Event list"

definition EventArray_Create :: "real \<Rightarrow> Event list \<Rightarrow> EventArray" where
  "EventArray_Create t es = \<lparr>ea_timestamp = t, ea_events = es\<rparr>"

section \<open>ActiveEventSurface\<close>

text \<open>
  The surface of active events: \<open>_sae[2]\<close> and \<open>_saeLatest[2]\<close> are pairs of
  \<open>imgWidth \<times> imgHeight\<close> matrices indexed by polarity (0 or 1) and then by
  \<open>(ex, ey)\<close>; \<open>_eventImgMat\<close> is the \<open>imgHeight \<times> imgWidth\<close> visualisation raster.
  The undistortion map is an external collaborator and no part of the state that
  \<open>GrabEvent\<close> touches.
\<close>

record ActiveEventSurface =
  FILTER_THD :: real
  imgWidth :: int
  imgHeight :: int
  sae :: "nat \<Rightarrow> real grid"
  saeLatest :: "nat \<Rightarrow> real grid"
  timeLatest :: real
  eventImgMat :: "Vec3b grid"

definition ActiveEventSurface_Create :: "int \<Rightarrow> int \<Rightarrow> real \<Rightarrow> ActiveEventSurface" where
  "ActiveEventSurface_Create w h filterThd =
     \<lparr>FILTER_THD = filterThd, imgWidth = w, imgHeight = h,
      sae = (\<lambda>_. grid_const w h 0),
      saeLatest = (\<lambda>_. grid_const w h 0),
      timeLatest = 0,
      eventImgMat = grid_const h w (0, 0, 0)\<rparr>"

text \<open>
  \<open>GrabEvent(event, drawEventMat)\<close>. \<open>tLast\<close> and \<open>tLastInv\<close> are references into
  \<open>_saeLatest\<close>; the test reads them before either branch writes \<open>tLast = et\<close>.
\<close>

definition GrabEvent :: "ActiveEventSurface \<Rightarrow> Event \<Rightarrow> bool \<Rightarrow> error + ActiveEventSurface" where
  "GrabEvent s event drawEventMat =
     (let ep = ev_polarity event;
          ex = uint (fst (ev_pos event));
          ey = uint (snd (ev_pos event));
          et = ev_timestamp event;
          pol = (if ep then 1 else 0 :: nat);
          polInv = (if \<not> ep then 1 else 0 :: nat)
      in if \<not> in_grid (saeLatest s pol) ex ey \<or> \<not> in_grid (saeLatest s polInv) ex ey
         then Inl IndexOutOfRange
         else
           let tLast = g_at (saeLatest s pol) ex ey;
               tLastInv = g_at (saeLatest s polInv) ex ey;
               latest' = (saeLatest s)(pol := grid_set (saeLatest s pol) ex ey et)
           in if et > tLast + FILTER_THD s \<or> tLastInv > tLast
              then
                if \<not> in_grid (sae s pol) ex ey then Inl IndexOutOfRange
                else
                  let s1 = s\<lparr>saeLatest := latest',
                             sae := (sae s)(pol := grid_set (sae s pol) ex ey et),
                             timeLatest := et\<rparr>
                  in if drawEventMat
                     then if \<not> in_grid (eventImgMat s1) ey ex then Inl IndexOutOfRange
                          else Inr (s1\<lparr>eventImgMat := grid_set (eventImgMat s1) ey ex
                                  (if ep then (255, 0, 0) else (0, 0, 255))\<rparr>)
                     else Inr s1
              else
                let s1 = s\<lparr>saeLatest := latest', timeLatest := et\<rparr>
                in if drawEventMat
                   then if \<not> in_grid (eventImgMat s1) ey ex then Inl IndexOutOfRange
                        else Inr (s1\<lparr>eventImgMat := grid_set (eventImgMat s1) ey ex
                                (if ep then (255, 0, 0) else (0, 0, 255))\<rparr>)
                   else Inr s1)"

text \<open>\<open>GrabEvent(events, drawEventMat)\<close>: the events of a batch, in order.\<close>

fun GrabEvent_loop :: "ActiveEventSurface \<Rightarrow> Event list \<Rightarrow> bool \<Rightarrow> error + ActiveEventSurface" where
  "GrabEvent_loop s [] drawEventMat = Inr s"
| "GrabEvent_loop s (event # events) drawEventMat =
     (case GrabEvent s event drawEventMat of
        Inl err \<Rightarrow> Inl err
      | Inr s' \<Rightarrow> GrabEvent_loop s' events drawEventMat)"

definition GrabEventArray :: "ActiveEventSurface \<Rightarrow> EventArray \<Rightarrow> bool \<Rightarrow> error + ActiveEventSurface" where
  "GrabEventArray s events drawEventMat = GrabEvent_loop s (ea_events events) drawEventMat"


section \<open>Vectors and the double values of the flow computation\<close>

type_synonym vec2 = "real \<times> real"
type_synonym vec3 = "real \<times> real \<times> real"
type_synonym mat3 = "vec3 \<times> vec3 \<times> vec3"
type_synonym mat23 = "vec3 \<times> vec3"

definition dot3 :: "vec3 \<Rightarrow> vec3 \<Rightarrow> real" where
  "dot3 u v = (case u of (u0, u1, u2) \<Rightarrow> case v of (v0, v1, v2) \<Rightarrow> u0 * v0 + u1 * v1 + u2 * v2)"

definition mat3_vec :: "mat3 \<Rightarrow> vec3 \<Rightarrow> vec3" where
  "mat3_vec m v = (case m of (r0, r1, r2) \<Rightarrow> (dot3 r0 v, dot3 r1 v, dot3 r2 v))"

text \<open>
  A \<open>double\<close> with the special values of IEEE 754. Finite values are exact reals (no
  rounding, no overflow); a division by zero and the arithmetic on its result follow the
  standard: \<open>x / 0\<close> is an infinity for \<open>x \<noteq> 0\<close> and NaN for \<open>x = 0\<close>, an infinity
  times zero is NaN, NaN propagates, and every ordered comparison with NaN is false.
  Zero carries no sign here: a zero divisor counts as \<open>+0\<close>, which is what the only
  divisor of the flow computation, a sum of two squares, can be.
\<close>

datatype double = Fin real | PInf | NInf | NaN

fun d_mul :: "double \<Rightarrow> double \<Rightarrow> double" where
  "d_mul (Fin a) (Fin b) = Fin (a * b)"
| "d_mul NaN _ = NaN"
| "d_mul _ NaN = NaN"
| "d_mul PInf (Fin b) = (if b = 0 then NaN else if 0 < b then PInf else NInf)"
| "d_mul NInf (Fin b) = (if b = 0 then NaN else if 0 < b then NInf else PInf)"
| "d_mul (Fin a) PInf = (if a = 0 then NaN else if 0 < a then PInf else NInf)"
| "d_mul (Fin a) NInf = (if a = 0 then NaN else if 0 < a then NInf else PInf)"
| "d_mul PInf PInf = PInf"
| "d_mul PInf NInf = NInf"
| "d_mul NInf PInf = NInf"
| "d_mul NInf NInf = PInf"

fun d_add :: "double \<Rightarrow> double \<Rightarrow> double" where
  "d_add (Fin a) (Fin b) = Fin (a + b)"
| "d_add NaN _ = NaN"
| "d_add _ NaN = NaN"
| "d_add PInf NInf = NaN"
| "d_add NInf PInf = NaN"
| "d_add PInf _ = PInf"
| "d_add NInf _ = NInf"
| "d_add (Fin a) PInf = PInf"
| "d_add (Fin a) NInf = NInf"

fun d_div :: "double \<Rightarrow> double \<Rightarrow> double" where
  "d_div (Fin a) (Fin b) =
     (if b \<noteq> 0 then Fin (a / b) else if a = 0 then NaN else if 0 < a then PInf else NInf)"
| "d_div NaN _ = NaN"
| "d_div _ NaN = NaN"
| "d_div (Fin a) PInf = Fin 0"
| "d_div (Fin a) NInf = Fin 0"
| "d_div PInf (Fin b) = (if 0 \<le> b then PInf else NInf)"
| "d_div NInf (Fin b) = (if 0 \<le> b then NInf else PInf)"
| "d_div PInf _ = NaN"
| "d_div NInf _ = NaN"

fun d_gt :: "double \<Rightarrow> double \<Rightarrow> bool" where
  "d_gt (Fin a) (Fin b) = (a > b)"
| "d_gt NaN _ = False"
| "d_gt _ NaN = False"
| "d_gt PInf PInf = False"
| "d_gt PInf _ = True"
| "d_gt NInf _ = False"
| "d_gt (Fin a) PInf = False"
| "d_gt (Fin a) NInf = True"

fun d_finite :: "double \<Rightarrow> bool" where
  "d_finite (Fin a) = True"
| "d_finite _ = False"

type_synonym Vector2d = "double \<times> double"

definition squaredNorm :: "Vector2d \<Rightarrow> double" where
  "squaredNorm v = d_add (d_mul (fst v) (fst v)) (d_mul (snd v) (snd v))"

section \<open>The local-plane sample-consensus problem\<close>

text \<open>
  \<open>EventLocalPlaneSacProblem\<close> holds the centred window samples \<open>_data\<close>, triples
  \<open>(x, y, t)\<close>. Two library routines are parameters of the model: Eigen's
  \<open>ldlt().solve\<close>, which solves a symmetric linear system, and the consensus search
  \<open>opengv::sac::Ransac::computeModel\<close>, whose outcome is the success flag, the inlier
  indices and the model of the best trial. The undistortion of a raster and the value
  the compiler gives the conversion of \<open>-1.0\<close> to \<open>uchar\<close> (the language leaves it
  undefined) are parameters as well.
\<close>

record externals =
  ldlt_solve :: "mat3 \<Rightarrow> vec3 \<Rightarrow> vec3"
  ransac_computeModel :: "vec3 list \<Rightarrow> real \<Rightarrow> int \<Rightarrow> bool \<times> int list \<times> vec3"
  RemoveDistortion_64F :: "real grid \<Rightarrow> real grid"
  RemoveDistortion_8U :: "uchar grid \<Rightarrow> uchar grid"
  uchar_of_minus_one :: uchar

definition vector_at :: "'a list \<Rightarrow> int \<Rightarrow> error + 'a" where
  "vector_at xs i = (if 0 \<le> i \<and> i < int (length xs) then Inr (xs ! nat i) else Inl VectorOutOfRange)"

definition getSampleSize :: int where
  "getSampleSize = 3"

definition PointToPlaneDistance :: "real \<Rightarrow> real \<Rightarrow> real \<Rightarrow> real \<Rightarrow> real \<Rightarrow> real \<Rightarrow> real" where
  "PointToPlaneDistance x y t A B C = (let tPred = - (A * x + B * y + C) in \<bar>t - tPred\<bar>)"

text \<open>
  The loop of \<open>computeModelCoefficients\<close> fills the rows \<open>(x, y, 1)\<close> of \<open>M\<close> and the
  entries \<open>-t\<close> of \<open>b\<close>; \<open>MtM\<close> and \<open>Mtv\<close> are the products \<open>M.transpose() * M\<close> and
  \<open>M.transpose() * b\<close>.
\<close>

fun fill_rows :: "vec3 list \<Rightarrow> int list \<Rightarrow> error + (vec3 list \<times> real list)" where
  "fill_rows data [] = Inr ([], [])"
| "fill_rows data (i # indices) =
     (case vector_at data i of
        Inl err \<Rightarrow> Inl err
      | Inr (x, y, t) \<Rightarrow>
          (case fill_rows data indices of
             Inl err \<Rightarrow> Inl err
           | Inr (M, b) \<Rightarrow> Inr ((x, y, 1) # M, (- t) # b)))"

definition MtM :: "vec3 list \<Rightarrow> mat3" where
  "MtM M =
     ((sum_list (map (\<lambda>(x, y, w). x * x) M), sum_list (map (\<lambda>(x, y, w). x * y) M),
       sum_list (map (\<lambda>(x, y, w). x * w) M)),
      (sum_list (map (\<lambda>(x, y, w). y * x) M), sum_list (map (\<lambda>(x, y, w). y * y) M),
       sum_list (map (\<lambda>(x, y, w). y * w) M)),
      (sum_list (map (\<lambda>(x, y, w). w * x) M), sum_list (map (\<lambda>(x, y, w). w * y) M),
       sum_list (map (\<lambda>(x, y, w). w * w) M)))"

definition Mtv :: "vec3 list \<Rightarrow> real list \<Rightarrow> vec3" where
  "Mtv M b =
     (sum_list (map (\<lambda>((x, y, w), bi). x * bi) (zip M b)),
      sum_list (map (\<lambda>((x, y, w), bi). y * bi) (zip M b)),
      sum_list (map (\<lambda>((x, y, w), bi). w * bi) (zip M b)))"

text \<open>The C++ function returns \<open>true\<close> whenever it returns; the model is its \<open>outModel\<close>.\<close>

definition computeModelCoefficients :: "externals \<Rightarrow> vec3 list \<Rightarrow> int list \<Rightarrow> error + vec3" where
  "computeModelCoefficients env data indices =
     (case fill_rows data indices of
        Inl err \<Rightarrow> Inl err
      | Inr (M, b) \<Rightarrow> Inr (ldlt_solve env (MtM M) (Mtv M b)))"

fun getSelectedDistancesToModel :: "vec3 list \<Rightarrow> vec3 \<Rightarrow> int list \<Rightarrow> error + real list" where
  "getSelectedDistancesToModel data model [] = Inr []"
| "getSelectedDistancesToModel data model (i # indices) =
     (case vector_at data i of
        Inl err \<Rightarrow> Inl err
      | Inr (x, y, t) \<Rightarrow>
          (case getSelectedDistancesToModel data model indices of
             Inl err \<Rightarrow> Inl err
           | Inr scores \<Rightarrow>
               Inr (PointToPlaneDistance x y t (fst model) (fst (snd model)) (snd (snd model))
                    # scores)))"

definition optimizeModelCoefficients ::
  "externals \<Rightarrow> vec3 list \<Rightarrow> int list \<Rightarrow> vec3 \<Rightarrow> error + vec3" where
  "optimizeModelCoefficients env data inliers model = computeModelCoefficients env data inliers"


section \<open>RawTimeSurface\<close>

text \<open>
  The raw time map of the surface and its polarity map, both \<open>imgHeight \<times> imgWidth\<close>
  rasters read at \<open>(y, x)\<close>. The loop reads \<open>_sae[1](x, y)\<close> and \<open>_sae[0](x, y)\<close> for
  every pixel of the image, which fails when a matrix is smaller than the image.
\<close>

definition RawTimeSurface ::
  "externals \<Rightarrow> ActiveEventSurface \<Rightarrow> bool \<Rightarrow> bool \<Rightarrow> error + (real grid \<times> uchar grid)" where
  "RawTimeSurface env s ignorePolarity undistoMat =
     (let w = imgWidth s; h = imgHeight s
      in if 0 < w \<and> 0 < h \<and>
            (g_rows (sae s 1) < w \<or> g_cols (sae s 1) < h \<or>
             g_rows (sae s 0) < w \<or> g_cols (sae s 0) < h)
         then Inl IndexOutOfRange
         else
           let timeSurfaceMap =
                 \<lparr>g_rows = h, g_cols = w,
                  g_at = (\<lambda>y x.
                    if 0 \<le> y \<and> y < h \<and> 0 \<le> x \<and> x < w
                    then let mostRecentStampAtCoord =
                               max (g_at (sae s 1) x y) (g_at (sae s 0) x y);
                             polarity = (if g_at (sae s 1) x y > g_at (sae s 0) x y
                                         then 1 else - 1)
                         in if \<not> ignorePolarity then mostRecentStampAtCoord * polarity
                            else mostRecentStampAtCoord
                    else 0)\<rparr>;
               polarityMap =
                 \<lparr>g_rows = h, g_cols = w,
                  g_at = (\<lambda>y x.
                    if 0 \<le> y \<and> y < h \<and> 0 \<le> x \<and> x < w
                    then if g_at (sae s 1) x y > g_at (sae s 0) x y
                         then 1 else uchar_of_minus_one env
                    else 0)\<rparr>
           in if undistoMat
              then Inr (RemoveDistortion_64F env timeSurfaceMap,
                        RemoveDistortion_8U env polarityMap)
              else Inr (timeSurfaceMap, polarityMap))"

definition GetTimeLatest :: "ActiveEventSurface \<Rightarrow> real" where
  "GetTimeLatest s = timeLatest s"

section \<open>NormFlowPack and its event views\<close>

text \<open>
  \<open>NormFlow\<close> and \<open>NormFlowPack\<close> are declared outside the given sources; the fields are
  the ones the code assigns and reads. The two debug rasters of the pack take no part in
  any computation and are left out.
\<close>

record NormFlow =
  nf_timestamp :: real
  nf_p :: "int \<times> int"
  nf_nf :: Vector2d

definition NormFlow_Create :: "real \<Rightarrow> int \<times> int \<Rightarrow> Vector2d \<Rightarrow> NormFlow" where
  "NormFlow_Create t p nf = \<lparr>nf_timestamp = t, nf_p = p, nf_nf = nf\<rparr>"

record NormFlowPack =
  pk_nfs :: "NormFlow list"
  pk_rawTimeSurfaceMap :: "real grid"
  pk_polarityMap :: "uchar grid"
  pk_inliersOccupy :: "uchar grid"
  pk_timestamp :: real

text \<open>Row-major raster order: \<open>for ey < rows: for ex < cols\<close>, from \<open>lo\<close> on both axes.\<close>

definition raster :: "int \<Rightarrow> int \<Rightarrow> int \<Rightarrow> (int \<times> int) list" where
  "raster lo rows cols = concat (map (\<lambda>ey. map (\<lambda>ex. (ey, ex)) [lo..cols - 1]) [lo..rows - 1])"

fun ActiveEvents_loop :: "NormFlowPack \<Rightarrow> real \<Rightarrow> (int \<times> int) list \<Rightarrow> error + Event list" where
  "ActiveEvents_loop pack dt [] = Inr []"
| "ActiveEvents_loop pack dt ((ey, ex) # rest) =
     (if \<not> in_grid (pk_rawTimeSurfaceMap pack) ey ex then Inl IndexOutOfRange
      else
        let et = g_at (pk_rawTimeSurfaceMap pack) ey ex
        in if et < 1 / 1000 \<or> pk_timestamp pack - et > dt
           then ActiveEvents_loop pack dt rest
           else if \<not> in_grid (pk_polarityMap pack) ey ex then Inl IndexOutOfRange
           else
             let ep = g_at (pk_polarityMap pack) ey ex
             in case ActiveEvents_loop pack dt rest of
                  Inl err \<Rightarrow> Inl err
                | Inr events \<Rightarrow>
                    Inr (Event_Create et (word_of_int ex, word_of_int ey) (ep \<noteq> 0) # events))"

definition ActiveEvents :: "NormFlowPack \<Rightarrow> real \<Rightarrow> error + EventArray option" where
  "ActiveEvents pack dt =
     (let rows = g_rows (pk_rawTimeSurfaceMap pack);
          cols = g_cols (pk_rawTimeSurfaceMap pack)
      in case ActiveEvents_loop pack dt (raster 0 rows cols) of
           Inl err \<Rightarrow> Inl err
         | Inr events \<Rightarrow>
             if length events > 0
             then Inr (Some (EventArray_Create (ev_timestamp (last events)) events))
             else Inr None)"

fun NormFlowEvents_loop :: "NormFlowPack \<Rightarrow> (int \<times> int) list \<Rightarrow> error + Event list" where
  "NormFlowEvents_loop pack [] = Inr []"
| "NormFlowEvents_loop pack ((ey, ex) # rest) =
     (if \<not> in_grid (pk_rawTimeSurfaceMap pack) ey ex then Inl IndexOutOfRange
      else
        let et = g_at (pk_rawTimeSurfaceMap pack) ey ex
        in if et < 1 / 1000 then NormFlowEvents_loop pack rest
           else if \<not> in_grid (pk_inliersOccupy pack) ey ex then Inl IndexOutOfRange
           else if g_at (pk_inliersOccupy pack) ey ex = 0 then NormFlowEvents_loop pack rest
           else if \<not> in_grid (pk_polarityMap pack) ey ex then Inl IndexOutOfRange
           else
             let ep = g_at (pk_polarityMap pack) ey ex
             in case NormFlowEvents_loop pack rest of
                  Inl err \<Rightarrow> Inl err
                | Inr events \<Rightarrow>
                    Inr (Event_Create et (word_of_int ex, word_of_int ey) (ep \<noteq> 0) # events))"

definition NormFlowEvents :: "NormFlowPack \<Rightarrow> error + EventArray option" where
  "NormFlowEvents pack =
     (let rows = g_rows (pk_rawTimeSurfaceMap pack);
          cols = g_cols (pk_rawTimeSurfaceMap pack)
      in case NormFlowEvents_loop pack (raster 0 rows cols) of
           Inl err \<Rightarrow> Inl err
         | Inr events \<Rightarrow>
             if length events > 0
             then Inr (Some (EventArray_Create (ev_timestamp (last events)) events))
             else Inr None)"


section \<open>ExtractNormFlows\<close>

text \<open>
  The scan keeps three accumulators: \<open>occupy\<close> (claimed seed pixels), \<open>inliersOccupy\<close>
  and the flow list \<open>nfs\<close>. The two rasters drawn on the way are visual output only and
  are left out. \<open>scan_ctx\<close> holds what the loop body reads and never writes.
\<close>

record scan_state =
  occupy :: "uchar grid"
  inliersOccupy :: "uchar grid"
  nfs :: "NormFlow list"

record scan_ctx =
  mask :: "uchar grid"
  rtsMat :: "real grid"
  ws :: int
  neighborDist :: int
  subTravSize :: int
  winSampleCountThd :: int
  goodRatioThd :: real
  timeDistEventToPlaneThd :: real
  ransacMaxIter :: int

text \<open>The conversion of a \<open>double\<close> to \<open>int\<close> truncates towards zero.\<close>

definition c_trunc :: "real \<Rightarrow> int" where
  "c_trunc r = (if 0 \<le> r then \<lfloor>r\<rfloor> else \<lceil>r\<rceil>)"

text \<open>\<open>cv::inRange\<close>: 255 where \<open>lo \<le> src \<le> hi\<close>, 0 elsewhere.\<close>

definition inRange :: "real grid \<Rightarrow> real \<Rightarrow> real \<Rightarrow> uchar grid" where
  "inRange src lo hi =
     \<lparr>g_rows = g_rows src, g_cols = g_cols src,
      g_at = (\<lambda>r c. if lo \<le> g_at src r c \<and> g_at src r c \<le> hi then 255 else 0)\<rparr>"

definition Centralization :: "(int \<times> int \<times> real) list \<Rightarrow> vec3 list" where
  "Centralization inRangeData =
     (let n = real (length inRangeData);
          mean1 = sum_list (map (\<lambda>(x, y, t). real_of_int x) inRangeData) / n;
          mean2 = sum_list (map (\<lambda>(x, y, t). real_of_int y) inRangeData) / n;
          mean3 = sum_list (map (\<lambda>(x, y, t). t) inRangeData) / n
      in map (\<lambda>(x, y, t). (real_of_int x - mean1, real_of_int y - mean2, t - mean3))
           inRangeData)"

text \<open>
  The nested window iteration \<open>for dy: for dx\<close>, flattened in its order. The \<open>break\<close>
  out of both levels once a claimed neighbour is met ends the traversal with
  \<open>jumpCurPixel = true\<close>.
\<close>

definition window_offsets :: "int \<Rightarrow> (int \<times> int) list" where
  "window_offsets n = concat (map (\<lambda>dy. map (\<lambda>dx. (dy, dx)) [- n..n]) [- n..n])"

fun window_loop ::
  "scan_ctx \<Rightarrow> uchar grid \<Rightarrow> int \<Rightarrow> int \<Rightarrow> (int \<times> int) list \<Rightarrow>
   (int \<times> int \<times> real) list \<times> real \<Rightarrow> error + (bool \<times> (int \<times> int \<times> real) list \<times> real)" where
  "window_loop ctx occ x y [] (inRangeData, timeCen) = Inr (False, inRangeData, timeCen)"
| "window_loop ctx occ x y ((dy, dx) # rest) (inRangeData, timeCen) =
     (let nx = x + dx; ny = y + dy;
          near = (\<bar>dx\<bar> \<le> neighborDist ctx \<and> \<bar>dy\<bar> \<le> neighborDist ctx)
      in if near \<and> \<not> in_grid occ ny nx then Inl IndexOutOfRange
         else if near \<and> g_at occ ny nx = 255 then Inr (True, inRangeData, timeCen)
         else if \<bar>dx\<bar> > ws ctx \<or> \<bar>dy\<bar> > ws ctx
              then window_loop ctx occ x y rest (inRangeData, timeCen)
         else if \<not> in_grid (mask ctx) ny nx then Inl IndexOutOfRange
         else if g_at (mask ctx) ny nx \<noteq> 255
              then window_loop ctx occ x y rest (inRangeData, timeCen)
         else if \<not> in_grid (rtsMat ctx) ny nx then Inl IndexOutOfRange
         else
           let timestamp = g_at (rtsMat ctx) ny nx
           in window_loop ctx occ x y rest
                (inRangeData @ [(nx, ny, timestamp)],
                 if nx = x \<and> ny = y then timestamp else timeCen))"

text \<open>The loop over the inlier indices of the consensus search that marks the inlier pixels.\<close>

fun mark_inliers ::
  "uchar grid \<Rightarrow> (int \<times> int \<times> real) list \<Rightarrow> int list \<Rightarrow> error + uchar grid" where
  "mark_inliers occ inRangeData [] = Inr occ"
| "mark_inliers occ inRangeData (idx # rest) =
     (case vector_at inRangeData idx of
        Inl err \<Rightarrow> Inl err
      | Inr (ex, ey, et) \<Rightarrow>
          if \<not> in_grid occ ey ex then Inl IndexOutOfRange
          else mark_inliers (grid_set occ ey ex 255) inRangeData rest)"

text \<open>
  The flow vector of a fitted plane, as the code forms it:
  \<open>1.0 / (dtdx * dtdx + dtdy * dtdy) * Vector2d(dtdx, dtdy)\<close>.
\<close>

definition plane_flow :: "double \<Rightarrow> double \<Rightarrow> Vector2d" where
  "plane_flow dtdx dtdy =
     (let k = d_div (Fin 1) (d_add (d_mul dtdx dtdx) (d_mul dtdy dtdy))
      in (d_mul k dtdx, d_mul k dtdy))"

text \<open>
  One iteration of the pixel scan, at row \<open>y\<close> and column \<open>x\<close>. The inlier ratio
  divides by the number of gathered samples; were there none, the double quotient would
  be NaN or infinite and the comparison with \<open>goodRatioThd\<close> false.
\<close>

definition ExtractNormFlows_pixel ::
  "externals \<Rightarrow> scan_ctx \<Rightarrow> scan_state \<Rightarrow> int \<times> int \<Rightarrow> error + scan_state" where
  "ExtractNormFlows_pixel env ctx st p =
     (case p of (y, x) \<Rightarrow>
      if \<not> in_grid (mask ctx) y x then Inl IndexOutOfRange
      else if g_at (mask ctx) y x \<noteq> 255 then Inr st
      else
        case window_loop ctx (occupy st) x y (window_offsets (subTravSize ctx)) ([], 0) of
          Inl err \<Rightarrow> Inl err
        | Inr (jumpCurPixel, inRangeData, timeCen) \<Rightarrow>
            if jumpCurPixel \<or> int (length inRangeData) < winSampleCountThd ctx then Inr st
            else if \<not> in_grid (occupy st) y x then Inl IndexOutOfRange
            else
              let st1 = st\<lparr>occupy := grid_set (occupy st) y x 255\<rparr>;
                  centeredInRangeData = Centralization inRangeData;
                  (res, inliers, model_coefficients) =
                     ransac_computeModel env centeredInRangeData
                       (timeDistEventToPlaneThd ctx) (ransacMaxIter ctx)
              in if \<not> res \<or>
                    (inRangeData \<noteq> [] \<and>
                     real (length inliers) / real (length inRangeData) < goodRatioThd ctx)
                 then Inr st1
                 else
                   case optimizeModelCoefficients env centeredInRangeData inliers
                          model_coefficients of
                     Inl err \<Rightarrow> Inl err
                   | Inr abc \<Rightarrow>
                       let dtdx = Fin (- fst abc); dtdy = Fin (- fst (snd abc));
                           nf = plane_flow dtdx dtdy
                       in if d_gt (squaredNorm nf) (Fin (4000 * 4000)) then Inr st1
                          else
                            case mark_inliers (inliersOccupy st1) inRangeData inliers of
                              Inl err \<Rightarrow> Inl err
                            | Inr occ \<Rightarrow>
                                Inr (st1\<lparr>nfs := nfs st1 @ [NormFlow_Create timeCen (x, y) nf],
                                         inliersOccupy := occ\<rparr>))"

fun scan_loop ::
  "externals \<Rightarrow> scan_ctx \<Rightarrow> scan_state \<Rightarrow> (int \<times> int) list \<Rightarrow> error + scan_state" where
  "scan_loop env ctx st [] = Inr st"
| "scan_loop env ctx st (p # ps) =
     (case ExtractNormFlows_pixel env ctx st p of
        Inl err \<Rightarrow> Inl err
      | Inr st' \<Rightarrow> scan_loop env ctx st' ps)"

definition ExtractNormFlows ::
  "externals \<Rightarrow> ActiveEventSurface \<Rightarrow> real \<Rightarrow> int \<Rightarrow> int \<Rightarrow> real \<Rightarrow> real \<Rightarrow> int \<Rightarrow>
   error + NormFlowPack" where
  "ExtractNormFlows env sea decaySec winSize neighborDist' goodRatioThd'
     timeDistEventToPlaneThd' ransacMaxIter' =
     (case RawTimeSurface env sea True True of
        Inl err \<Rightarrow> Inl err
      | Inr (rtsMat', pMat) \<Rightarrow>
          let timeLast = GetTimeLatest sea;
              mask' = inRange rtsMat' (max (1 / 1000) (timeLast - 15 / 10 * decaySec)) timeLast;
              subTravSize' = max winSize neighborDist';
              winSampleCount = (2 * winSize + 1) * (2 * winSize + 1);
              ctx = \<lparr>mask = mask', rtsMat = rtsMat', ws = winSize,
                     neighborDist = neighborDist', subTravSize = subTravSize',
                     winSampleCountThd = c_trunc (real_of_int winSampleCount * goodRatioThd'),
                     goodRatioThd = goodRatioThd',
                     timeDistEventToPlaneThd = timeDistEventToPlaneThd',
                     ransacMaxIter = ransacMaxIter'\<rparr>;
              rows = g_rows mask'; cols = g_cols mask';
              st0 = \<lparr>occupy = grid_const rows cols 0, inliersOccupy = grid_const rows cols 0,
                     nfs = []\<rparr>
          in case scan_loop env ctx st0
                    (concat (map (\<lambda>y. map (\<lambda>x. (y, x))
                                        [subTravSize'..cols - subTravSize' - 1])
                               [subTravSize'..rows - subTravSize' - 1])) of
               Inl err \<Rightarrow> Inl err
             | Inr st \<Rightarrow>
                 Inr \<lparr>pk_nfs = nfs st, pk_rawTimeSurfaceMap = rtsMat', pk_polarityMap = pMat,
                      pk_inliersOccupy = inliersOccupy st,
                      pk_timestamp = GetTimeLatest sea\<rparr>)"


section \<open>OpticalFlowCorr\<close>

text \<open>
  A \<open>std::array<double, 3>\<close> is a triple, read at positions 0, 1 and 2. Of the camera
  frame the constructor reads only the number of rows of its image.
\<close>

definition ary_at :: "'a \<times> 'a \<times> 'a \<Rightarrow> nat \<Rightarrow> 'a" where
  "ary_at a i = (case a of (a0, a1, a2) \<Rightarrow> if i = 0 then a0 else if i = 1 then a1 else a2)"

definition MID :: nat where
  "MID = 1"

record CameraFrame =
  image_rows :: int

record OpticalFlowCorr =
  timeAry :: vec3
  xTraceAry :: vec3
  yTraceAry :: vec3
  rdFactorAry :: vec3
  depth :: real
  invDepth :: real
  frame :: CameraFrame
  withDepthObservability :: bool
  weight :: real

definition OpticalFlowCorr_Create ::
  "vec3 \<Rightarrow> vec3 \<Rightarrow> vec3 \<Rightarrow> real \<Rightarrow> CameraFrame \<Rightarrow> real \<Rightarrow> OpticalFlowCorr" where
  "OpticalFlowCorr_Create timeAry' xTraceAry' yTraceAry' depth' frame' rsExpFactor =
     (let imgHeight = image_rows frame'
      in \<lparr>timeAry = timeAry', xTraceAry = xTraceAry', yTraceAry = yTraceAry',
          rdFactorAry =
            (ary_at yTraceAry' 0 / real_of_int imgHeight - rsExpFactor,
             ary_at yTraceAry' 1 / real_of_int imgHeight - rsExpFactor,
             ary_at yTraceAry' 2 / real_of_int imgHeight - rsExpFactor),
          depth = depth',
          invDepth = (if depth' > 1 / 1000 then 1 / depth' else - 1),
          frame = frame',
          withDepthObservability = False,
          weight = 1\<rparr>)"



definition MidReadoutFactor :: "OpticalFlowCorr \<Rightarrow> real" where
  "MidReadoutFactor c = ary_at (rdFactorAry c) MID"

text \<open>
  Modelled from the spec: \<open>LagrangePolynomialTripleMidFOD\<close> (util/utils_tpl.hpp) is not
  among the given sources. The spec calls it the Lagrange 3-point differentiation of a
  trace: the first derivative, at the middle abscissa \<open>x1\<close>, of the quadratic through
  \<open>(x0, y0)\<close>, \<open>(x1, y1)\<close> and \<open>(x2, y2)\<close>.
\<close>

definition LagrangePolynomialTripleMidFOD :: "vec3 \<Rightarrow> vec3 \<Rightarrow> real" where
  "LagrangePolynomialTripleMidFOD xAry yAry =
     (case xAry of (x0, x1, x2) \<Rightarrow> case yAry of (y0, y1, y2) \<Rightarrow>
        y0 * (x1 - x2) / ((x0 - x1) * (x0 - x2)) +
        y1 * (2 * x1 - x0 - x2) / ((x1 - x0) * (x1 - x2)) +
        y2 * (x1 - x0) / ((x2 - x0) * (x2 - x1)))"


section \<open>RGBDVelocityFactor\<close>

definition vec2_add :: "vec2 \<Rightarrow> vec2 \<Rightarrow> vec2" where
  "vec2_add u v = (fst u + fst v, snd u + snd v)"


definition vec2_scale :: "real \<Rightarrow> vec2 \<Rightarrow> vec2" where
  "vec2_scale k v = (k * fst v, k * snd v)"


definition vec3_scale :: "real \<Rightarrow> vec3 \<Rightarrow> vec3" where
  "vec3_scale k v = (case v of (v0, v1, v2) \<Rightarrow> (k * v0, k * v1, k * v2))"


definition mat23_scale :: "real \<Rightarrow> mat23 \<Rightarrow> mat23" where
  "mat23_scale k m = (vec3_scale k (fst m), vec3_scale k (snd m))"

definition mat23_vec :: "mat23 \<Rightarrow> vec3 \<Rightarrow> vec2" where
  "mat23_vec m v = (dot3 (fst m) v, dot3 (snd m) v)"









text \<open>
  \<open>factor_pred\<close> is the predicted pixel velocity \<open>pred\<close>, in the branch that the template
  argument \<open>IsInvDepth\<close> selects. The products associate to the left, as in C++:
  the scalar scales \<open>subAMat\<close>, and the scaled matrix is applied to the velocity.
\<close>

definition factor_pred ::
  "bool \<Rightarrow> real \<Rightarrow> real \<Rightarrow> real \<Rightarrow> mat23 \<Rightarrow> mat23 \<Rightarrow> vec3 \<Rightarrow> vec3 \<Rightarrow> vec2" where
  "factor_pred isInvDepth ALPHA BETA DEPTH_INFO subAMat subBMat
     LIN_VEL_DnToBr0InDn ANG_VEL_DnToBr0InDn =
     (if isInvDepth
      then vec2_add
             (mat23_vec (mat23_scale (DEPTH_INFO / (ALPHA + BETA * DEPTH_INFO)) subAMat)
                LIN_VEL_DnToBr0InDn)
             (mat23_vec subBMat ANG_VEL_DnToBr0InDn)
      else vec2_add
             (mat23_vec (mat23_scale (1 / (ALPHA * DEPTH_INFO + BETA)) subAMat)
                LIN_VEL_DnToBr0InDn)
             (mat23_vec subBMat ANG_VEL_DnToBr0InDn))"



section \<open>Predicates and sample inputs of the statements\<close>

subsection \<open>Surfaces\<close>

text \<open>
  A surface is well-formed when its four matrices have the dimensions of the image and
  the raster the transposed ones, as the constructor makes them; an event lies in the
  image when its pixel does.
\<close>

definition surface_ok :: "ActiveEventSurface \<Rightarrow> bool" where
  "surface_ok s =
     (g_rows (sae s 0) = imgWidth s \<and> g_cols (sae s 0) = imgHeight s \<and>
      g_rows (sae s 1) = imgWidth s \<and> g_cols (sae s 1) = imgHeight s \<and>
      g_rows (saeLatest s 0) = imgWidth s \<and> g_cols (saeLatest s 0) = imgHeight s \<and>
      g_rows (saeLatest s 1) = imgWidth s \<and> g_cols (saeLatest s 1) = imgHeight s \<and>
      g_rows (eventImgMat s) = imgHeight s \<and> g_cols (eventImgMat s) = imgWidth s)"

definition event_in_image :: "ActiveEventSurface \<Rightarrow> Event \<Rightarrow> bool" where
  "event_in_image s e =
     (uint (fst (ev_pos e)) < imgWidth s \<and> uint (snd (ev_pos e)) < imgHeight s)"

text \<open>
  The state of the two debounce trackers of pixel \<open>(x, y)\<close> after an event of polarity
  \<open>p\<close> at time \<open>t1\<close>, while no later event of that polarity and no more recent event of
  the other polarity has reached the pixel.
\<close>

definition trackers_at ::
  "ActiveEventSurface \<Rightarrow> ActiveEventSurface \<Rightarrow> bool \<Rightarrow> 16 word \<Rightarrow> 16 word \<Rightarrow> real \<Rightarrow> bool" where
  "trackers_at s0 s p x y t1 =
     (surface_ok s \<and> imgWidth s = imgWidth s0 \<and> imgHeight s = imgHeight s0 \<and>
      FILTER_THD s = FILTER_THD s0 \<and>
      g_at (saeLatest s (if p then 1 else 0)) (uint x) (uint y) = t1 \<and>
      g_at (saeLatest s (if p then 0 else 1)) (uint x) (uint y) \<le> t1)"

definition sae_bounded :: "ActiveEventSurface \<Rightarrow> bool" where
  "sae_bounded s =
     (\<forall>pol x y. g_at (sae s pol) x y \<le> g_at (saeLatest s pol) x y \<and>
                g_at (saeLatest s pol) x y \<le> timeLatest s)"

text \<open>
  A 64 \<times> 48 surface with threshold 0.01 s after two polarity-1 events at pixel (10, 10),
  at 1.0 s (accepted) and 1.005 s (debounced).
\<close>

definition flicker_surface :: ActiveEventSurface where
  "flicker_surface =
     \<lparr>FILTER_THD = 1 / 100, imgWidth = 64, imgHeight = 48,
      sae = (\<lambda>_. grid_const 64 48 0)(1 := grid_set (grid_const 64 48 0) 10 10 1),
      saeLatest = (\<lambda>_. grid_const 64 48 0)
                    (1 := grid_set (grid_const 64 48 0) 10 10 (1005 / 1000)),
      timeLatest = 1005 / 1000,
      eventImgMat = grid_const 48 64 (0, 0, 0)\<rparr>"

text \<open>The same fresh surface after a single polarity-1 event at time -1 s.\<close>

definition early_surface :: ActiveEventSurface where
  "early_surface =
     \<lparr>FILTER_THD = 1 / 100, imgWidth = 64, imgHeight = 48,
      sae = (\<lambda>_. grid_const 64 48 0),
      saeLatest = (\<lambda>_. grid_const 64 48 0)(1 := grid_set (grid_const 64 48 0) 10 10 (- 1)),
      timeLatest = - 1,
      eventImgMat = grid_const 48 64 (0, 0, 0)\<rparr>"

subsection \<open>Plane fitting\<close>

text \<open>
  The sum of the squared distance scores of a model over a set of samples, and the rows
  and right-hand sides that \<open>computeModelCoefficients\<close> builds from them.
\<close>

definition plane_sse :: "vec3 list \<Rightarrow> vec3 \<Rightarrow> real" where
  "plane_sse pts m =
     sum_list (map (\<lambda>(x, y, t).
        (PointToPlaneDistance x y t (fst m) (fst (snd m)) (snd (snd m)))\<^sup>2) pts)"

definition sac_rows :: "vec3 list \<Rightarrow> vec3 list" where
  "sac_rows pts = map (\<lambda>(x, y, t). (x, y, 1)) pts"

definition sac_rhs :: "vec3 list \<Rightarrow> real list" where
  "sac_rhs pts = map (\<lambda>(x, y, t). - t) pts"

text \<open>
  Sample collaborators: an exact solver of \<open>3 \<times> 3\<close> systems (Cramer's rule), a consensus
  search that accepts the first nine samples, and identity undistortion.
\<close>

definition det3 :: "mat3 \<Rightarrow> real" where
  "det3 m = (case m of ((a, b, c), (d, e, f), (g, h, i)) \<Rightarrow>
     a * (e * i - f * h) - b * (d * i - f * g) + c * (d * h - e * g))"

definition cramer3 :: "mat3 \<Rightarrow> vec3 \<Rightarrow> vec3" where
  "cramer3 m r = (case m of ((a, b, c), (d, e, f), (g, h, i)) \<Rightarrow> case r of (p, q, s) \<Rightarrow>
     (det3 ((p, b, c), (q, e, f), (s, h, i)) / det3 m,
      det3 ((a, p, c), (d, q, f), (g, s, i)) / det3 m,
      det3 ((a, b, p), (d, e, q), (g, h, s)) / det3 m))"

definition exact_env :: externals where
  "exact_env =
     \<lparr>ldlt_solve = cramer3,
      ransac_computeModel = (\<lambda>data thd iters. (True, [0, 1, 2, 3, 4, 5, 6, 7, 8], (0, 0, 0))),
      RemoveDistortion_64F = (\<lambda>m. m), RemoveDistortion_8U = (\<lambda>m. m),
      uchar_of_minus_one = 255\<rparr>"

text \<open>
  The plane fit of the iteration at row \<open>y\<close>, column \<open>x\<close> succeeds: the pixel is in the
  recency mask, the window traversal met no claimed neighbour and gathered
  \<open>inRangeData\<close> (enough samples) with centre time \<open>timeCen\<close>, the consensus search
  succeeded with \<open>inliers\<close> (a sufficient ratio), and the refit over the inliers returned
  the coefficients \<open>abc\<close>.
\<close>

definition plane_fit_succeeds ::
  "externals \<Rightarrow> scan_ctx \<Rightarrow> scan_state \<Rightarrow> int \<Rightarrow> int \<Rightarrow> (int \<times> int \<times> real) list \<Rightarrow> real \<Rightarrow>
   int list \<Rightarrow> vec3 \<Rightarrow> bool" where
  "plane_fit_succeeds env ctx st y x inRangeData timeCen inliers abc =
     (in_grid (mask ctx) y x \<and> g_at (mask ctx) y x = 255 \<and>
      window_loop ctx (occupy st) x y (window_offsets (subTravSize ctx)) ([], 0)
        = Inr (False, inRangeData, timeCen) \<and>
      winSampleCountThd ctx \<le> int (length inRangeData) \<and>
      inRangeData \<noteq> [] \<and>
      in_grid (occupy st) y x \<and>
      (\<exists>model. ransac_computeModel env (Centralization inRangeData)
                 (timeDistEventToPlaneThd ctx) (ransacMaxIter ctx) = (True, inliers, model) \<and>
               optimizeModelCoefficients env (Centralization inRangeData) inliers model
                 = Inr abc) \<and>
      goodRatioThd ctx \<le> real (length inliers) / real (length inRangeData))"

text \<open>
  A \<open>3 \<times> 3\<close> scan around the centre pixel with window radius and neighbour distance 1,
  over a raw time map, and the empty accumulators. \<open>ramp\<close> is the time map of an edge
  that sweeps the columns at 10 pixels per second; \<open>flat\<close> holds one time everywhere.
\<close>

definition window3 :: "real grid \<Rightarrow> scan_ctx" where
  "window3 rts =
     \<lparr>mask = grid_const 3 3 255, rtsMat = rts, ws = 1, neighborDist = 1, subTravSize = 1,
      winSampleCountThd = 7, goodRatioThd = 8 / 10, timeDistEventToPlaneThd = 1 / 100,
      ransacMaxIter = 100\<rparr>"

definition scan0 :: scan_state where
  "scan0 = \<lparr>occupy = grid_const 3 3 0, inliersOccupy = grid_const 3 3 0, nfs = []\<rparr>"

definition ramp :: "real grid" where
  "ramp = \<lparr>g_rows = 3, g_cols = 3, g_at = (\<lambda>y x. 1 + real_of_int x / 10)\<rparr>"

definition ramp_data :: "(int \<times> int \<times> real) list" where
  "ramp_data = [(0, 0, 1), (1, 0, 11 / 10), (2, 0, 12 / 10),
                (0, 1, 1), (1, 1, 11 / 10), (2, 1, 12 / 10),
                (0, 2, 1), (1, 2, 11 / 10), (2, 2, 12 / 10)]"

definition flat :: "real grid" where
  "flat = grid_const 3 3 1"

definition flat_data :: "(int \<times> int \<times> real) list" where
  "flat_data = [(0, 0, 1), (1, 0, 1), (2, 0, 1),
                (0, 1, 1), (1, 1, 1), (2, 1, 1),
                (0, 2, 1), (1, 2, 1), (2, 2, 1)]"

subsection \<open>Packs\<close>

text \<open>
  In a pack built by \<open>ExtractNormFlows\<close> the three maps have the same dimensions. A pixel
  is active when it passes both tests of \<open>ActiveEvents\<close>, an inlier pixel when it passes
  both tests of \<open>NormFlowEvents\<close>; \<open>pixel_event\<close> is the event either view creates.
\<close>

definition pack_ok :: "NormFlowPack \<Rightarrow> bool" where
  "pack_ok pack =
     (g_rows (pk_polarityMap pack) = g_rows (pk_rawTimeSurfaceMap pack) \<and>
      g_cols (pk_polarityMap pack) = g_cols (pk_rawTimeSurfaceMap pack) \<and>
      g_rows (pk_inliersOccupy pack) = g_rows (pk_rawTimeSurfaceMap pack) \<and>
      g_cols (pk_inliersOccupy pack) = g_cols (pk_rawTimeSurfaceMap pack))"

definition pixel_active :: "NormFlowPack \<Rightarrow> real \<Rightarrow> int \<times> int \<Rightarrow> bool" where
  "pixel_active pack dt p =
     (case p of (ey, ex) \<Rightarrow>
        \<not> (g_at (pk_rawTimeSurfaceMap pack) ey ex < 1 / 1000 \<or>
           pk_timestamp pack - g_at (pk_rawTimeSurfaceMap pack) ey ex > dt))"

definition pixel_inlier :: "NormFlowPack \<Rightarrow> int \<times> int \<Rightarrow> bool" where
  "pixel_inlier pack p =
     (case p of (ey, ex) \<Rightarrow>
        \<not> g_at (pk_rawTimeSurfaceMap pack) ey ex < 1 / 1000 \<and>
        g_at (pk_inliersOccupy pack) ey ex \<noteq> 0)"

definition pixel_event :: "NormFlowPack \<Rightarrow> int \<times> int \<Rightarrow> Event" where
  "pixel_event pack p =
     (case p of (ey, ex) \<Rightarrow>
        Event_Create (g_at (pk_rawTimeSurfaceMap pack) ey ex) (word_of_int ex, word_of_int ey)
          (g_at (pk_polarityMap pack) ey ex \<noteq> 0))"

definition idle_pack :: NormFlowPack where
  "idle_pack = \<lparr>pk_nfs = [], pk_rawTimeSurfaceMap = grid_const 2 2 0,
                 pk_polarityMap = grid_const 2 2 0, pk_inliersOccupy = grid_const 2 2 0,
                 pk_timestamp = 1\<rparr>"

definition busy_pack :: NormFlowPack where
  "busy_pack = \<lparr>pk_nfs = [], pk_rawTimeSurfaceMap = grid_set (grid_const 2 2 0) 1 0 1,
                 pk_polarityMap = grid_const 2 2 1, pk_inliersOccupy = grid_const 2 2 0,
                 pk_timestamp = 1\<rparr>"


subsection \<open>A factor over sample splines\<close>




section \<open>Properties of the surface of active events\<close>

lemma grid_set_dims [simp]:
  "g_rows (grid_set m r c v) = g_rows m" "g_cols (grid_set m r c v) = g_cols m"
  by (simp_all add: grid_set_def)

lemma grid_set_at:
  "g_at (grid_set m r c v) r' c' = (if r' = r \<and> c' = c then v else g_at m r' c')"
  by (simp add: grid_set_def)

lemma in_grid_grid_set [simp]: "in_grid (grid_set m r c v) r' c' = in_grid m r' c'"
  by (simp add: in_grid_def)

lemma surface_ok_Create: "surface_ok (ActiveEventSurface_Create w h thd)"
  by (simp add: surface_ok_def ActiveEventSurface_Create_def grid_const_def)

lemma in_grid_ok:
  assumes "surface_ok s" "event_in_image s e"
  shows "in_grid (sae s 0) (uint (fst (ev_pos e))) (uint (snd (ev_pos e)))"
    "in_grid (sae s (Suc 0)) (uint (fst (ev_pos e))) (uint (snd (ev_pos e)))"
    "in_grid (saeLatest s 0) (uint (fst (ev_pos e))) (uint (snd (ev_pos e)))"
    "in_grid (saeLatest s (Suc 0)) (uint (fst (ev_pos e))) (uint (snd (ev_pos e)))"
    "in_grid (eventImgMat s) (uint (snd (ev_pos e))) (uint (fst (ev_pos e)))"
  using assms by (simp_all add: surface_ok_def event_in_image_def in_grid_def)

text \<open>What one ingestion does once every range check is discharged.\<close>

lemma GrabEvent_eq:
  assumes "surface_ok s" "event_in_image s e"
  shows "GrabEvent s e d =
    Inr (let pol = (if ev_polarity e then 1 else 0 :: nat);
             polInv = (if ev_polarity e then 0 else 1 :: nat);
             ex = uint (fst (ev_pos e)); ey = uint (snd (ev_pos e));
             et = ev_timestamp e;
             tLast = g_at (saeLatest s pol) ex ey;
             tLastInv = g_at (saeLatest s polInv) ex ey
         in s\<lparr>saeLatest := (saeLatest s)(pol := grid_set (saeLatest s pol) ex ey et),
              sae := (if et > tLast + FILTER_THD s \<or> tLastInv > tLast
                      then (sae s)(pol := grid_set (sae s pol) ex ey et) else sae s),
              timeLatest := et,
              eventImgMat := (if d then grid_set (eventImgMat s) ey ex
                                (if ev_polarity e then (255, 0, 0) else (0, 0, 255))
                              else eventImgMat s)\<rparr>)"
  using in_grid_ok [OF assms]
  by (simp add: GrabEvent_def Let_def)

text \<open>
  C1, as amended. For an event of polarity \<open>p\<close> at a pixel \<open>(x, y)\<close> of the image, with
  time \<open>t\<close>, let \<open>tLast\<close> and \<open>tLastInv\<close> be the entries of \<open>saeLatest\<close> (not of \<open>sae\<close>)
  for \<open>p\<close> and for the opposite polarity at that pixel, read before the ingestion. The
  ingestion succeeds and sets \<open>saeLatest[p](x, y)\<close> to \<open>t\<close>; when
  \<open>t > tLast + FILTER_THD\<close> or \<open>tLastInv > tLast\<close> it sets \<open>sae[p](x, y)\<close> to \<open>t\<close> as
  well, and otherwise it leaves \<open>sae\<close> as it was.
\<close>

theorem GrabEvent_debounce_rule:
  assumes "surface_ok s" and "event_in_image s e"
  shows "\<exists>s'. GrabEvent s e d = Inr s' \<and>
     (let pol = (if ev_polarity e then 1 else 0 :: nat);
          polInv = (if ev_polarity e then 0 else 1 :: nat);
          x = uint (fst (ev_pos e)); y = uint (snd (ev_pos e));
          t = ev_timestamp e;
          tLast = g_at (saeLatest s pol) x y;
          tLastInv = g_at (saeLatest s polInv) x y
      in g_at (saeLatest s' pol) x y = t \<and>
         (if t > tLast + FILTER_THD s \<or> tLastInv > tLast
          then g_at (sae s' pol) x y = t
          else sae s' = sae s))"
  unfolding GrabEvent_eq [OF assms]
  by (simp add: Let_def grid_set_at)

text \<open>
  An instance: on the debounced surface \<open>flicker_surface\<close> a third event at 1.012 s lies
  within the threshold of the tracker (1.005 s), so \<open>sae\<close> keeps 1.0 s and the tracker
  moves on.
\<close>

theorem GrabEvent_debounce_rule_witness:
  "\<exists>s'. GrabEvent flicker_surface (Event_Create (1012 / 1000) (10, 10) True) False = Inr s' \<and>
     g_at (saeLatest s' 1) 10 10 = 1012 / 1000 \<and> g_at (sae s' 1) 10 10 = 1"
proof -
  have ok: "surface_ok flicker_surface"
    by (simp add: surface_ok_def flicker_surface_def grid_const_def)
  have im: "event_in_image flicker_surface (Event_Create (1012 / 1000) (10, 10) True)"
    by (simp add: event_in_image_def flicker_surface_def Event_Create_def)
  from GrabEvent_debounce_rule [OF ok im, of False]
  obtain s' where s': "GrabEvent flicker_surface (Event_Create (1012 / 1000) (10, 10) True) False
        = Inr s'"
    and r: "g_at (saeLatest s' 1) 10 10 = 1012 / 1000" "sae s' = sae flicker_surface"
    by (auto simp: Let_def Event_Create_def flicker_surface_def grid_const_def grid_set_def
          split: if_splits)
  have "g_at (sae flicker_surface 1) 10 10 = 1"
    by (simp add: flicker_surface_def grid_set_def)
  with s' r show ?thesis by auto
qed

text \<open>
  C1 as the specification words it compares the event time with \<open>sae\<close>. On a fresh
  64 \<times> 48 surface with threshold 0.01 s, two polarity-1 events at pixel (10, 10) at 1.0 s
  and 1.005 s lead to \<open>flicker_surface\<close>, where \<open>sae[1](10, 10) = 1.0\<close>. A third event at
  1.012 s is later than \<open>sae[1](10, 10) + FILTER_THD = 1.01\<close>, so the rule as worded
  would set \<open>sae[1](10, 10)\<close> to 1.012; the code leaves it at 1.0.
\<close>

theorem GrabEvent_sae_reading_counterexample:
  "GrabEvent_loop (ActiveEventSurface_Create 64 48 (1 / 100))
      [Event_Create 1 (10, 10) True, Event_Create (1005 / 1000) (10, 10) True] False
    = Inr flicker_surface \<and>
   g_at (sae flicker_surface 1) 10 10 = 1 \<and>
   (1012 / 1000 :: real) > g_at (sae flicker_surface 1) 10 10 + FILTER_THD flicker_surface \<and>
   GrabEvent flicker_surface (Event_Create (1012 / 1000) (10, 10) True) False
     = Inr (flicker_surface
         \<lparr>saeLatest := (saeLatest flicker_surface)
             (1 := grid_set (saeLatest flicker_surface 1) 10 10 (1012 / 1000)),
          timeLatest := 1012 / 1000\<rparr>) \<and>
   g_at (sae (flicker_surface
         \<lparr>saeLatest := (saeLatest flicker_surface)
             (1 := grid_set (saeLatest flicker_surface 1) 10 10 (1012 / 1000)),
          timeLatest := 1012 / 1000\<rparr>) 1) 10 10 \<noteq> 1012 / 1000"
  by (simp add: GrabEvent_def Let_def in_grid_def ActiveEventSurface_Create_def grid_const_def
        grid_set_def Event_Create_def flicker_surface_def)

lemma trackers_at_step:
  assumes "trackers_at s0 s p x y t1" "event_in_image s0 e"
    and "ev_pos e = (x, y) \<longrightarrow> ev_polarity e \<noteq> p \<and> ev_timestamp e \<le> t1"
  shows "\<exists>s'. GrabEvent s e d = Inr s' \<and> trackers_at s0 s' p x y t1"
proof -
  have ok: "surface_ok s" and im: "event_in_image s e"
    using assms(1,2) by (simp_all add: trackers_at_def event_in_image_def)
  have cell: "ev_pos e \<noteq> (x, y) \<Longrightarrow>
      \<not> (uint x = uint (fst (ev_pos e)) \<and> uint y = uint (snd (ev_pos e)))"
    by (cases "ev_pos e") (auto simp: word_uint_eq_iff)
  show ?thesis
    unfolding GrabEvent_eq [OF ok im]
    using assms(1,3) cell
    by (cases "ev_pos e = (x, y)")
       (auto simp: trackers_at_def Let_def surface_ok_def grid_set_at)
qed

lemma trackers_at_loop:
  assumes "trackers_at s0 s p x y t1"
    and "\<forall>e \<in> set es. event_in_image s0 e \<and>
           (ev_pos e = (x, y) \<longrightarrow> ev_polarity e \<noteq> p \<and> ev_timestamp e \<le> t1)"
  shows "\<exists>s'. GrabEvent_loop s es d = Inr s' \<and> trackers_at s0 s' p x y t1"
  using assms
proof (induction es arbitrary: s)
  case Nil
  then show ?case by simp
next
  case (Cons e es)
  from Cons.prems obtain s1 where s1: "GrabEvent s e d = Inr s1" "trackers_at s0 s1 p x y t1"
    using trackers_at_step [of s0 s p x y t1 e d] by auto
  from Cons.IH [OF s1(2)] Cons.prems(2) s1(1) show ?case by simp
qed


text \<open>
  C2. Two events of the same polarity \<open>p\<close> reach pixel \<open>(x, y)\<close> at times \<open>t1\<close> and
  \<open>t2\<close>, the second no later than \<open>t1 + FILTER_THD\<close>. No event of the other polarity
  is more recent at that pixel: the tracker of the other polarity holds a time of at
  most \<open>t1\<close> before the first event, and the events \<open>es\<close> that arrive between the two
  are at other pixels, or at this pixel with the other polarity and a time of at most
  \<open>t1\<close>. Then everything is ingested without failure, the second event leaves \<open>sae\<close>
  as it found it, and it sets \<open>saeLatest[p](x, y)\<close> to \<open>t2\<close>.
\<close>

theorem debounce_second_event:
  assumes ok: "surface_ok s"
    and px: "uint x < imgWidth s" "uint y < imgHeight s"
    and between: "\<forall>e \<in> set es. event_in_image s e \<and>
           (ev_pos e = (x, y) \<longrightarrow> ev_polarity e \<noteq> p \<and> ev_timestamp e \<le> t1)"
    and near: "t2 \<le> t1 + FILTER_THD s"
    and older: "g_at (saeLatest s (if p then 0 else 1)) (uint x) (uint y) \<le> t1"
  shows "\<exists>s1 s2. GrabEvent_loop s (Event_Create t1 (x, y) p # es) d = Inr s1 \<and>
           GrabEvent s1 (Event_Create t2 (x, y) p) d = Inr s2 \<and>
           sae s2 = sae s1 \<and>
           g_at (saeLatest s2 (if p then 1 else 0)) (uint x) (uint y) = t2"
proof -
  let ?e1 = "Event_Create t1 (x, y) p" and ?e2 = "Event_Create t2 (x, y) p"
  have im1: "event_in_image s ?e1" and im2: "event_in_image s ?e2"
    using px by (simp_all add: event_in_image_def Event_Create_def)
  obtain sa where sa: "GrabEvent s ?e1 d = Inr sa"
    using GrabEvent_eq [OF ok im1, of d] by simp
  have tr: "trackers_at s sa p x y t1"
    using sa older ok unfolding GrabEvent_eq [OF ok im1]
    by (auto simp: trackers_at_def Let_def surface_ok_def grid_set_at Event_Create_def)
  from trackers_at_loop [OF tr between, of d]
  obtain s1 where s1: "GrabEvent_loop sa es d = Inr s1" "trackers_at s s1 p x y t1"
    by blast
  have ok1: "surface_ok s1" and im21: "event_in_image s1 ?e2"
    using s1(2) im2 by (simp_all add: trackers_at_def event_in_image_def)
  have "\<exists>s2. GrabEvent s1 ?e2 d = Inr s2 \<and> sae s2 = sae s1 \<and>
           g_at (saeLatest s2 (if p then 1 else 0)) (uint x) (uint y) = t2"
    unfolding GrabEvent_eq [OF ok1 im21]
    using s1(2) near
    by (auto simp: trackers_at_def Let_def grid_set_at Event_Create_def)
  with sa s1(1) show ?thesis by simp
qed

text \<open>
  The scenario of C2: a fresh 64 \<times> 48 surface with threshold 0.01 s takes polarity-1
  events at pixel (10, 10) at 0.0 s and 0.005 s. The second event leaves
  \<open>sae[1](10, 10)\<close> at 0.0 and sets \<open>saeLatest[1](10, 10)\<close> to 0.005.
\<close>

theorem debounce_second_event_witness:
  "\<exists>s1 s2. GrabEvent_loop (ActiveEventSurface_Create 64 48 (1 / 100))
                 [Event_Create 0 (10, 10) True] False = Inr s1 \<and>
           GrabEvent s1 (Event_Create (5 / 1000) (10, 10) True) False = Inr s2 \<and>
           g_at (sae s2 1) 10 10 \<le> 0 \<and> sae s2 = sae s1 \<and>
           g_at (saeLatest s2 1) 10 10 = 5 / 1000"
proof -
  let ?s = "ActiveEventSurface_Create 64 48 (1 / 100)"
  have px: "uint (10 :: 16 word) < imgWidth ?s" "uint (10 :: 16 word) < imgHeight ?s"
    by (simp_all add: ActiveEventSurface_Create_def)
  have between: "\<forall>e \<in> set []. event_in_image ?s e \<and>
      (ev_pos e = (10, 10) \<longrightarrow> ev_polarity e \<noteq> True \<and> ev_timestamp e \<le> 0)"
    by simp
  have near: "(5 / 1000 :: real) \<le> 0 + FILTER_THD ?s"
    by (simp add: ActiveEventSurface_Create_def)
  have older: "g_at (saeLatest ?s (if True then 0 else 1)) (uint (10 :: 16 word))
      (uint (10 :: 16 word)) \<le> 0"
    by (simp add: ActiveEventSurface_Create_def grid_const_def)
  from debounce_second_event [OF surface_ok_Create px between near older, of False]
  obtain s1 s2 where
    s1: "GrabEvent_loop ?s [Event_Create 0 (10, 10) True] False = Inr s1" and
    s2: "GrabEvent s1 (Event_Create (5 / 1000) (10, 10) True) False = Inr s2" and
    keep: "sae s2 = sae s1" and
    latest: "g_at (saeLatest s2 1) 10 10 = 5 / 1000"
    by auto
  have "g_at (sae s1 1) 10 10 = 0"
    using s1
    by (auto simp: GrabEvent_def Let_def in_grid_def ActiveEventSurface_Create_def
          grid_const_def grid_set_def Event_Create_def split: if_splits)
  with s1 s2 keep latest show ?thesis by auto
qed

lemma sae_bounded_step:
  assumes "sae_bounded s" "timeLatest s \<le> ev_timestamp e" "GrabEvent s e d = Inr s'"
  shows "sae_bounded s' \<and> timeLatest s' = ev_timestamp e"
proof -
  have le: "g_at (sae s pol) x y \<le> ev_timestamp e"
    "g_at (saeLatest s pol) x y \<le> ev_timestamp e" for pol x y
    using assms(1,2) unfolding sae_bounded_def by (meson order_trans)+
  have b: "g_at (sae s pol) x y \<le> g_at (saeLatest s pol) x y" for pol x y
    using assms(1) unfolding sae_bounded_def by blast
  show ?thesis
    using assms(3) le b
    by (auto simp: GrabEvent_def Let_def sae_bounded_def grid_set_at split: if_splits)
qed

lemma sae_bounded_loop:
  assumes "sae_bounded s" "sorted (map ev_timestamp es)"
    and "\<forall>e \<in> set es. timeLatest s \<le> ev_timestamp e"
    and "GrabEvent_loop s es d = Inr s'"
  shows "sae_bounded s'"
  using assms
proof (induction es arbitrary: s)
  case Nil
  then show ?case by simp
next
  case (Cons e es)
  from Cons.prems(4) obtain s1 where s1: "GrabEvent s e d = Inr s1"
    and rest: "GrabEvent_loop s1 es d = Inr s'"
    by (auto split: sum.splits)
  from sae_bounded_step [OF Cons.prems(1) _ s1] Cons.prems(3)
  have b1: "sae_bounded s1" and t1: "timeLatest s1 = ev_timestamp e" by simp_all
  have "\<forall>e' \<in> set es. timeLatest s1 \<le> ev_timestamp e'"
    using Cons.prems(2) t1 by simp
  with Cons.IH [OF b1 _ _ rest] Cons.prems(2) show ?case by simp
qed

text \<open>
  C3, as amended. A fresh surface ingests a sequence of events whose timestamps are
  non-decreasing and not negative. After every ingestion (every prefix \<open>take n es\<close> that
  is ingested without failure), \<open>sae[pol](x, y) \<le> saeLatest[pol](x, y)\<close> holds for every
  polarity and pixel.
\<close>

theorem sae_le_saeLatest_nonneg:
  assumes "sorted (map ev_timestamp es)" and "\<forall>e \<in> set es. 0 \<le> ev_timestamp e"
    and "GrabEvent_loop (ActiveEventSurface_Create w h thd) (take n es) d = Inr s"
  shows "g_at (sae s pol) x y \<le> g_at (saeLatest s pol) x y"
proof -
  have b0: "sae_bounded (ActiveEventSurface_Create w h thd)"
    by (simp add: sae_bounded_def ActiveEventSurface_Create_def grid_const_def)
  have srt: "sorted (map ev_timestamp (take n es))"
    using assms(1) by (simp add: take_map [symmetric] sorted_wrt_take)
  have pos: "\<forall>e \<in> set (take n es).
      timeLatest (ActiveEventSurface_Create w h thd) \<le> ev_timestamp e"
    using assms(2) by (auto simp: ActiveEventSurface_Create_def dest: in_set_takeD)
  from sae_bounded_loop [OF b0 srt pos assms(3)] show ?thesis
    by (simp add: sae_bounded_def)
qed

text \<open>
  An instance: the two events that lead from the fresh 64 \<times> 48 surface to
  \<open>flicker_surface\<close>, where \<open>sae[1](10, 10) = 1.0 \<le> 1.005 = saeLatest[1](10, 10)\<close>.
\<close>

theorem sae_le_saeLatest_nonneg_witness:
  "GrabEvent_loop (ActiveEventSurface_Create 64 48 (1 / 100))
     (take 2 [Event_Create 1 (10, 10) True, Event_Create (1005 / 1000) (10, 10) True]) False
     = Inr flicker_surface \<and>
   g_at (sae flicker_surface 1) 10 10 \<le> g_at (saeLatest flicker_surface 1) 10 10"
proof -
  let ?es = "[Event_Create 1 (10, 10) True, Event_Create (1005 / 1000) (10, 10) True]"
  have srt: "sorted (map ev_timestamp ?es)" and pos: "\<forall>e \<in> set ?es. 0 \<le> ev_timestamp e"
    by (simp_all add: Event_Create_def)
  have run: "GrabEvent_loop (ActiveEventSurface_Create 64 48 (1 / 100)) (take 2 ?es) False
      = Inr flicker_surface"
    by (simp add: GrabEvent_def Let_def in_grid_def ActiveEventSurface_Create_def
          grid_const_def grid_set_def Event_Create_def flicker_surface_def)
  from sae_le_saeLatest_nonneg [OF srt pos run] run show ?thesis by blast
qed

text \<open>
  C3 as the specification words it asks only for non-decreasing timestamps. A single
  event at -1 s is such a sequence; the fresh surface has \<open>sae\<close> and \<open>saeLatest\<close> at 0,
  the event is debounced (it is not later than \<open>0 + FILTER_THD\<close>), and afterwards
  \<open>sae[1](10, 10) = 0 > -1 = saeLatest[1](10, 10)\<close>.
\<close>

theorem sae_le_saeLatest_counterexample:
  "sorted (map ev_timestamp [Event_Create (- 1) (10, 10) True]) \<and>
   GrabEvent_loop (ActiveEventSurface_Create 64 48 (1 / 100))
      [Event_Create (- 1) (10, 10) True] False = Inr early_surface \<and>
   \<not> g_at (sae early_surface 1) 10 10 \<le> g_at (saeLatest early_surface 1) 10 10"
  by (simp add: GrabEvent_def Let_def in_grid_def ActiveEventSurface_Create_def grid_const_def
        grid_set_def Event_Create_def early_surface_def)


section \<open>Properties of the local-plane model\<close>

lemma fill_rows_in_range:
  assumes "\<forall>i \<in> set indices. 0 \<le> i \<and> i < int (length data)"
  shows "fill_rows data indices =
    Inr (sac_rows (map (\<lambda>i. data ! nat i) indices), sac_rhs (map (\<lambda>i. data ! nat i) indices))"
  using assms
  by (induction indices) (auto simp: vector_at_def sac_rows_def sac_rhs_def split: prod.splits)

text \<open>
  The normal equations \<open>(M\<^sup>T M) z = M\<^sup>T b\<close> say that the residuals
  \<open>A x + B y + C + t\<close> are orthogonal to the three columns of \<open>M\<close>.
\<close>

lemma normal_residual:
  "mat3_vec (MtM (sac_rows pts)) (A, B, C) = Mtv (sac_rows pts) (sac_rhs pts) \<longleftrightarrow>
     sum_list (map (\<lambda>(x, y, t). x * (A * x + B * y + C + t)) pts) = 0 \<and>
     sum_list (map (\<lambda>(x, y, t). y * (A * x + B * y + C + t)) pts) = 0 \<and>
     sum_list (map (\<lambda>(x, y, t). A * x + B * y + C + t) pts) = 0"
proof -
  have c1: "sum_list (map (\<lambda>(x, y, t). x * (A * x + B * y + C + t)) pts) =
      fst (mat3_vec (MtM (sac_rows pts)) (A, B, C)) - fst (Mtv (sac_rows pts) (sac_rhs pts))"
    by (induction pts)
       (auto simp: mat3_vec_def MtM_def Mtv_def dot3_def sac_rows_def sac_rhs_def algebra_simps)
  have c2: "sum_list (map (\<lambda>(x, y, t). y * (A * x + B * y + C + t)) pts) =
      fst (snd (mat3_vec (MtM (sac_rows pts)) (A, B, C))) -
      fst (snd (Mtv (sac_rows pts) (sac_rhs pts)))"
    by (induction pts)
       (auto simp: mat3_vec_def MtM_def Mtv_def dot3_def sac_rows_def sac_rhs_def algebra_simps)
  have c3: "sum_list (map (\<lambda>(x, y, t). A * x + B * y + C + t) pts) =
      snd (snd (mat3_vec (MtM (sac_rows pts)) (A, B, C))) -
      snd (snd (Mtv (sac_rows pts) (sac_rhs pts)))"
    by (induction pts)
       (auto simp: mat3_vec_def MtM_def Mtv_def dot3_def sac_rows_def sac_rhs_def algebra_simps)
  show ?thesis
    unfolding c1 c2 c3 by (auto simp: prod_eq_iff)
qed

lemma plane_sse_shift:
  "plane_sse pts (A + a, B + b, C + c) =
     plane_sse pts (A, B, C) +
     2 * (a * sum_list (map (\<lambda>(x, y, t). x * (A * x + B * y + C + t)) pts) +
          b * sum_list (map (\<lambda>(x, y, t). y * (A * x + B * y + C + t)) pts) +
          c * sum_list (map (\<lambda>(x, y, t). A * x + B * y + C + t) pts)) +
     sum_list (map (\<lambda>(x, y, t). (a * x + b * y + c)\<^sup>2) pts)"
  by (induction pts)
     (auto simp: plane_sse_def PointToPlaneDistance_def power2_eq_square algebra_simps)

lemma normal_equations_minimise:
  assumes "mat3_vec (MtM (sac_rows pts)) z = Mtv (sac_rows pts) (sac_rhs pts)"
  shows "plane_sse pts z \<le> plane_sse pts z'"
proof -
  obtain A B C where z: "z = (A, B, C)" by (cases z) auto
  obtain A' B' C' where z': "z' = (A', B', C')" by (cases z') auto
  have sq: "0 \<le> sum_list (map (\<lambda>(x, y, t). ((A' - A) * x + (B' - B) * y + (C' - C))\<^sup>2) pts)"
    by (rule sum_list_nonneg) auto
  have "plane_sse pts (A + (A' - A), B + (B' - B), C + (C' - C)) =
      plane_sse pts (A, B, C) +
      sum_list (map (\<lambda>(x, y, t). ((A' - A) * x + (B' - B) * y + (C' - C))\<^sup>2) pts)"
    using assms unfolding z normal_residual plane_sse_shift by simp
  with sq show ?thesis unfolding z z' by simp
qed

text \<open>
  C7. The minimal sample size is 3. The distance score of a point \<open>(x, y, t)\<close> under a
  model \<open>(A, B, C)\<close> is \<open>|t - tPred|\<close> with \<open>tPred = -(A x + B y + C)\<close>. For indices within
  the data, \<open>computeModelCoefficients\<close> returns what the linear solver gives for the
  normal equations \<open>(M\<^sup>T M) z = M\<^sup>T b\<close>, where \<open>M\<close> has the rows \<open>(x, y, 1)\<close> and \<open>b\<close>
  the entries \<open>-t\<close> of the sampled points; and whenever that value solves the system,
  it is a least-squares fit of \<open>t = -(A x + B y + C)\<close>: no other model has a smaller sum
  of squared distance scores over the sampled points.
\<close>

theorem local_plane_sac_model:
  "getSampleSize = 3 \<and>
   PointToPlaneDistance x y t A B C = \<bar>t - (- (A * x + B * y + C))\<bar> \<and>
   ((\<forall>i \<in> set indices. 0 \<le> i \<and> i < int (length data)) \<longrightarrow>
      (let pts = map (\<lambda>i. data ! nat i) indices;
           M = map (\<lambda>(x, y, t). (x, y, 1)) pts;
           b = map (\<lambda>(x, y, t). - t) pts;
           z = ldlt_solve env (MtM M) (Mtv M b)
       in computeModelCoefficients env data indices = Inr z \<and>
          (mat3_vec (MtM M) z = Mtv M b \<longrightarrow> (\<forall>z'. plane_sse pts z \<le> plane_sse pts z'))))"
proof (intro conjI impI)
  show "getSampleSize = 3" by (simp add: getSampleSize_def)
  show "PointToPlaneDistance x y t A B C = \<bar>t - (- (A * x + B * y + C))\<bar>"
    by (simp add: PointToPlaneDistance_def)
  assume r: "\<forall>i \<in> set indices. 0 \<le> i \<and> i < int (length data)"
  show "let pts = map (\<lambda>i. data ! nat i) indices;
           M = map (\<lambda>(x, y, t). (x, y, 1)) pts;
           b = map (\<lambda>(x, y, t). - t) pts;
           z = ldlt_solve env (MtM M) (Mtv M b)
       in computeModelCoefficients env data indices = Inr z \<and>
          (mat3_vec (MtM M) z = Mtv M b \<longrightarrow> (\<forall>z'. plane_sse pts z \<le> plane_sse pts z'))"
    using normal_equations_minimise
    by (simp add: Let_def computeModelCoefficients_def fill_rows_in_range [OF r]
          sac_rows_def sac_rhs_def)
qed

text \<open>
  An instance: three samples of the plane \<open>t = -(x + 2 y)\<close>. With an exact solver the
  model is \<open>(1, 2, 0)\<close>, every score is 0, and no model scores less.
\<close>

theorem local_plane_sac_model_witness:
  "computeModelCoefficients exact_env [(0, 0, 0), (1, 0, - 1), (0, 1, - 2)] [0, 1, 2]
     = Inr (1, 2, 0) \<and>
   plane_sse [(0, 0, 0), (1, 0, - 1), (0, 1, - 2)] (1, 2, 0) = 0 \<and>
   (\<forall>z'. plane_sse [(0, 0, 0), (1, 0, - 1), (0, 1, - 2)] (1, 2, 0)
          \<le> plane_sse [(0, 0, 0), (1, 0, - 1), (0, 1, - 2)] z')"
proof -
  let ?data = "[(0, 0, 0), (1, 0, - 1), (0, 1, - 2)] :: vec3 list"
  let ?M = "[(0, 0, 1), (1, 0, 1), (0, 1, 1)] :: vec3 list"
  let ?b = "[0, 1, 2] :: real list"
  have r: "\<forall>i \<in> set [0, 1, 2]. 0 \<le> i \<and> i < int (length ?data)" by simp
  have z: "ldlt_solve exact_env (MtM ?M) (Mtv ?M ?b) = (1, 2, 0)"
    by (simp add: exact_env_def MtM_def Mtv_def cramer3_def det3_def)
  have ne: "mat3_vec (MtM ?M) (1, 2, 0) = Mtv ?M ?b"
    by (simp add: MtM_def Mtv_def mat3_vec_def dot3_def)
  from local_plane_sac_model [of 0 0 0 0 0 0 "[0, 1, 2]" ?data exact_env] r
  have "computeModelCoefficients exact_env ?data [0, 1, 2] = Inr (1, 2, 0) \<and>
      (mat3_vec (MtM ?M) (1, 2, 0) = Mtv ?M ?b \<longrightarrow>
         (\<forall>z'. plane_sse ?data (1, 2, 0) \<le> plane_sse ?data z'))"
    by (simp add: Let_def z)
  with ne have "computeModelCoefficients exact_env ?data [0, 1, 2] = Inr (1, 2, 0)"
    and "\<forall>z'. plane_sse ?data (1, 2, 0) \<le> plane_sse ?data z'"
    by blast+
  moreover have "plane_sse ?data (1, 2, 0) = 0"
    by (simp add: plane_sse_def PointToPlaneDistance_def)
  ultimately show ?thesis by blast
qed


section \<open>Properties of the flow extraction\<close>

text \<open>The iteration at a pixel whose plane fit succeeds, from the refit onwards.\<close>

lemma pixel_after_fit:
  assumes "plane_fit_succeeds env ctx st y x inRangeData timeCen inliers abc"
  shows "ExtractNormFlows_pixel env ctx st (y, x) =
     (let st1 = st\<lparr>occupy := grid_set (occupy st) y x 255\<rparr>;
          nf = plane_flow (Fin (- fst abc)) (Fin (- fst (snd abc)))
      in if d_gt (squaredNorm nf) (Fin 16000000) then Inr st1
         else case mark_inliers (inliersOccupy st) inRangeData inliers of
                Inl err \<Rightarrow> Inl err
              | Inr occ \<Rightarrow>
                  Inr (st1\<lparr>nfs := nfs st @ [NormFlow_Create timeCen (x, y) nf],
                           inliersOccupy := occ\<rparr>))"
  using assms
  by (auto simp: plane_fit_succeeds_def ExtractNormFlows_pixel_def Let_def not_less
           split: sum.splits)

lemma plane_flow_finite:
  assumes "a \<noteq> 0 \<or> b \<noteq> 0"
  shows "plane_flow (Fin a) (Fin b) =
    (Fin (1 / (a * a + b * b) * a), Fin (1 / (a * a + b * b) * b))"
proof -
  have "a * a + b * b \<noteq> 0" using assms by (simp add: sum_squares_eq_zero_iff)
  then show ?thesis by (simp add: plane_flow_def Let_def)
qed

lemma plane_flow_zero: "plane_flow (Fin 0) (Fin 0) = (NaN, NaN)"
  by (simp add: plane_flow_def Let_def)

text \<open>The sample scans: window traversal, centring and refit.\<close>

lemma window_offsets_1:
  "window_offsets 1 =
     [(- 1, - 1), (- 1, 0), (- 1, 1), (0, - 1), (0, 0), (0, 1), (1, - 1), (1, 0), (1, 1)]"
  by (simp add: window_offsets_def upto.simps)

lemma window_loop_ramp:
  "window_loop (window3 ramp) (occupy scan0) 1 1 (window_offsets 1) ([], 0)
     = Inr (False, ramp_data, 11 / 10)"
  by (simp add: window_offsets_1 window3_def scan0_def ramp_def ramp_data_def grid_const_def
        in_grid_def Let_def)

lemma window_loop_flat:
  "window_loop (window3 flat) (occupy scan0) 1 1 (window_offsets 1) ([], 0)
     = Inr (False, flat_data, 1)"
  by (simp add: window_offsets_1 window3_def scan0_def flat_def flat_data_def grid_const_def
        in_grid_def Let_def)

lemma Centralization_ramp:
  "Centralization ramp_data =
     [(- 1, - 1, - 1 / 10), (0, - 1, 0), (1, - 1, 1 / 10),
      (- 1, 0, - 1 / 10), (0, 0, 0), (1, 0, 1 / 10),
      (- 1, 1, - 1 / 10), (0, 1, 0), (1, 1, 1 / 10)]"
  by (simp add: Centralization_def ramp_data_def Let_def)

lemma Centralization_flat:
  "Centralization flat_data =
     [(- 1, - 1, 0), (0, - 1, 0), (1, - 1, 0),
      (- 1, 0, 0), (0, 0, 0), (1, 0, 0),
      (- 1, 1, 0), (0, 1, 0), (1, 1, 0)]"
  by (simp add: Centralization_def flat_data_def Let_def)

lemma refit_ramp:
  "optimizeModelCoefficients exact_env (Centralization ramp_data) [0, 1, 2, 3, 4, 5, 6, 7, 8]
     (0, 0, 0) = Inr (- 1 / 10, 0, 0)"
  unfolding Centralization_ramp
  by (simp add: optimizeModelCoefficients_def computeModelCoefficients_def vector_at_def
        MtM_def Mtv_def exact_env_def cramer3_def det3_def)

lemma refit_flat:
  "optimizeModelCoefficients exact_env (Centralization flat_data) [0, 1, 2, 3, 4, 5, 6, 7, 8]
     (0, 0, 0) = Inr (0, 0, 0)"
  unfolding Centralization_flat
  by (simp add: optimizeModelCoefficients_def computeModelCoefficients_def vector_at_def
        MtM_def Mtv_def exact_env_def cramer3_def det3_def)

lemma window3_facts:
  "in_grid (mask (window3 rts)) 1 1" "g_at (mask (window3 rts)) 1 1 = 255"
  "in_grid (occupy scan0) 1 1" "subTravSize (window3 rts) = 1"
  "winSampleCountThd (window3 rts) = 7" "goodRatioThd (window3 rts) = 8 / 10"
  "ransac_computeModel exact_env data (timeDistEventToPlaneThd (window3 rts))
     (ransacMaxIter (window3 rts)) = (True, [0, 1, 2, 3, 4, 5, 6, 7, 8], (0, 0, 0))"
  by (simp_all add: window3_def scan0_def grid_const_def in_grid_def exact_env_def)

lemma fit_ramp:
  "plane_fit_succeeds exact_env (window3 ramp) scan0 1 1 ramp_data (11 / 10)
     [0, 1, 2, 3, 4, 5, 6, 7, 8] (- 1 / 10, 0, 0)"
proof -
  have n: "(7 :: int) \<le> int (length ramp_data)" "ramp_data \<noteq> []"
    "(8 / 10 :: real) \<le> real (length [0, 1, 2, 3, 4, 5, 6, 7, 8 :: int]) / real (length ramp_data)"
    by (simp_all add: ramp_data_def)
  show ?thesis
    unfolding plane_fit_succeeds_def window3_facts
    using window_loop_ramp refit_ramp n by (simp add: window3_facts)
qed

lemma fit_flat:
  "plane_fit_succeeds exact_env (window3 flat) scan0 1 1 flat_data 1
     [0, 1, 2, 3, 4, 5, 6, 7, 8] (0, 0, 0)"
proof -
  have n: "(7 :: int) \<le> int (length flat_data)" "flat_data \<noteq> []"
    "(8 / 10 :: real) \<le> real (length [0, 1, 2, 3, 4, 5, 6, 7, 8 :: int]) / real (length flat_data)"
    by (simp_all add: flat_data_def)
  show ?thesis
    unfolding plane_fit_succeeds_def window3_facts
    using window_loop_flat refit_flat n by (simp add: window3_facts)
qed

lemma mark_all_nine:
  assumes "data = ramp_data \<or> data = flat_data"
  shows "\<exists>occ. mark_inliers (inliersOccupy scan0) data [0, 1, 2, 3, 4, 5, 6, 7, 8] = Inr occ \<and>
           g_at occ 0 0 = 255"
  using assms
  by (auto simp: scan0_def ramp_data_def flat_data_def vector_at_def grid_const_def in_grid_def
        grid_set_def)

text \<open>
  C6. At a pixel whose plane fit succeeds with refit coefficients \<open>(A, B, C)\<close>, let
  \<open>dtdx = -A\<close>, \<open>dtdy = -B\<close> and \<open>q = dtdx\<^sup>2 + dtdy\<^sup>2\<close>. The pixel is claimed in
  \<open>occupy\<close>. When the flow \<open>(1 / q) \<cdot> (dtdx, dtdy)\<close> has a squared norm above
  \<open>(4 \<cdot> 10\<^sup>3)\<^sup>2\<close>, nothing else changes: no flow is recorded and no inlier is marked.
  Otherwise the inliers are marked and the flow recorded at the pixel, with the centre
  time, is that vector. (For \<open>q = 0\<close> the quotient is not a number; the vector is then
  NaN in both components, which the test does not reject.)
\<close>

theorem flow_of_fitted_plane:
  assumes "plane_fit_succeeds env ctx st y x inRangeData timeCen inliers (A, B, C)"
  shows "ExtractNormFlows_pixel env ctx st (y, x) =
     (let dtdx = - A; dtdy = - B;
          q = dtdx * dtdx + dtdy * dtdy;
          flow = (1 / q * dtdx, 1 / q * dtdy);
          st1 = st\<lparr>occupy := grid_set (occupy st) y x 255\<rparr>
      in if q \<noteq> 0 \<and> fst flow * fst flow + snd flow * snd flow > 4000 * 4000
         then Inr st1
         else case mark_inliers (inliersOccupy st) inRangeData inliers of
                Inl err \<Rightarrow> Inl err
              | Inr occ \<Rightarrow>
                  Inr (st1\<lparr>nfs := nfs st @
                              [NormFlow_Create timeCen (x, y)
                                 (if q = 0 then (NaN, NaN)
                                  else (Fin (fst flow), Fin (snd flow)))],
                           inliersOccupy := occ\<rparr>))"
proof (cases "A = 0 \<and> B = 0")
  case True
  then show ?thesis
    unfolding pixel_after_fit [OF assms]
    by (cases "mark_inliers (inliersOccupy st) inRangeData inliers")
       (simp_all add: plane_flow_zero squaredNorm_def Let_def)
next
  case False
  then have nz: "- A \<noteq> 0 \<or> - B \<noteq> 0" by simp
  then have q: "A * A + B * B \<noteq> 0" by (simp add: sum_squares_eq_zero_iff)
  show ?thesis
    unfolding pixel_after_fit [OF assms]
    using q False
    by (cases "mark_inliers (inliersOccupy st) inRangeData inliers")
       (auto simp: plane_flow_finite [OF nz] squaredNorm_def Let_def)
qed

text \<open>
  An instance: over \<open>ramp\<close> the refit plane is \<open>(-1/10, 0, 0)\<close>, the flow is 10 pixels
  per second along the columns, and it is recorded at the centre pixel.
\<close>

theorem flow_of_fitted_plane_witness:
  "\<exists>st'. ExtractNormFlows_pixel exact_env (window3 ramp) scan0 (1, 1) = Inr st' \<and>
     nfs st' = [NormFlow_Create (11 / 10) (1, 1) (Fin 10, Fin 0)] \<and>
     g_at (inliersOccupy st') 0 0 = 255"
proof -
  obtain occ where occ:
    "mark_inliers (inliersOccupy scan0) ramp_data [0, 1, 2, 3, 4, 5, 6, 7, 8] = Inr occ"
    "g_at occ 0 0 = 255"
    using mark_all_nine [of ramp_data] by blast
  show ?thesis
    using flow_of_fitted_plane [OF fit_ramp] occ
    by (simp add: Let_def scan0_def)
qed

text \<open>
  C9. The division that forms the flow vector is not guarded. When the refit
  coefficients have \<open>A = 0\<close> and \<open>B = 0\<close>, the divisor is zero and the vector is NaN in
  both components; its squared norm is NaN, the strict comparison with
  \<open>(4 \<cdot> 10\<^sup>3)\<^sup>2\<close> is false, and the iteration records a flow with that vector at the
  pixel and marks the inliers.
\<close>

theorem flat_plane_records_nan:
  assumes "plane_fit_succeeds env ctx st y x inRangeData timeCen inliers (0, 0, C)"
    and "mark_inliers (inliersOccupy st) inRangeData inliers = Inr occ"
  shows "plane_flow (Fin (- 0)) (Fin (- 0)) = (NaN, NaN) \<and>
         \<not> d_finite NaN \<and>
         \<not> d_gt (squaredNorm (NaN, NaN)) (Fin (4000 * 4000)) \<and>
         ExtractNormFlows_pixel env ctx st (y, x) =
           Inr (st\<lparr>occupy := grid_set (occupy st) y x 255,
                   nfs := nfs st @ [NormFlow_Create timeCen (x, y) (NaN, NaN)],
                   inliersOccupy := occ\<rparr>)"
  unfolding pixel_after_fit [OF assms(1)]
  using assms(2) by (simp add: plane_flow_zero squaredNorm_def Let_def)

text \<open>
  An instance: over \<open>flat\<close>, where all nine samples carry the same time, the refit plane
  is \<open>(0, 0, 0)\<close> and the flow recorded at the centre pixel is \<open>(NaN, NaN)\<close>.
\<close>

theorem flat_plane_records_nan_witness:
  "\<exists>st'. ExtractNormFlows_pixel exact_env (window3 flat) scan0 (1, 1) = Inr st' \<and>
     nfs st' = [NormFlow_Create 1 (1, 1) (NaN, NaN)] \<and>
     g_at (inliersOccupy st') 0 0 = 255"
proof -
  obtain occ where occ:
    "mark_inliers (inliersOccupy scan0) flat_data [0, 1, 2, 3, 4, 5, 6, 7, 8] = Inr occ"
    "g_at occ 0 0 = 255"
    using mark_all_nine [of flat_data] by blast
  show ?thesis
    using flat_plane_records_nan [OF fit_flat occ(1)] occ(2)
    by (simp add: scan0_def)
qed


section \<open>Properties of the event views of a pack\<close>

lemma pixel_simps:
  "pixel_active pack dt (ey, ex) =
     (\<not> (g_at (pk_rawTimeSurfaceMap pack) ey ex < 1 / 1000 \<or>
         pk_timestamp pack - g_at (pk_rawTimeSurfaceMap pack) ey ex > dt))"
  "pixel_inlier pack (ey, ex) =
     (\<not> g_at (pk_rawTimeSurfaceMap pack) ey ex < 1 / 1000 \<and>
      g_at (pk_inliersOccupy pack) ey ex \<noteq> 0)"
  "pixel_event pack (ey, ex) =
     Event_Create (g_at (pk_rawTimeSurfaceMap pack) ey ex) (word_of_int ex, word_of_int ey)
       (g_at (pk_polarityMap pack) ey ex \<noteq> 0)"
  by (simp_all add: pixel_active_def pixel_inlier_def pixel_event_def)

lemma filter_pairs_empty:
  "filter P ps = [] \<longleftrightarrow> (\<forall>a b. (a, b) \<in> set ps \<longrightarrow> \<not> P (a, b))"
  by (auto simp: filter_empty_conv)

lemma set_raster:
  "set (raster 0 rows cols) = {(ey, ex). 0 \<le> ey \<and> ey < rows \<and> 0 \<le> ex \<and> ex < cols}"
  by (auto simp: raster_def)

text \<open>With every access in range, each loop is a filter of the raster.\<close>

lemma ActiveEvents_loop_eq:
  assumes "\<forall>(ey, ex) \<in> set ps. in_grid (pk_rawTimeSurfaceMap pack) ey ex \<and>
             in_grid (pk_polarityMap pack) ey ex"
  shows "ActiveEvents_loop pack dt ps =
    Inr (map (pixel_event pack) (filter (pixel_active pack dt) ps))"
  using assms
  by (induction ps) (auto simp: pixel_simps Let_def)

lemma NormFlowEvents_loop_eq:
  assumes "\<forall>(ey, ex) \<in> set ps. in_grid (pk_rawTimeSurfaceMap pack) ey ex \<and>
             in_grid (pk_polarityMap pack) ey ex \<and> in_grid (pk_inliersOccupy pack) ey ex"
  shows "NormFlowEvents_loop pack ps =
    Inr (map (pixel_event pack) (filter (pixel_inlier pack) ps))"
  using assms
proof (induction ps)
  case Nil
  then show ?case by simp
next
  case (Cons p ps)
  obtain ey ex where p: "p = (ey, ex)" by (cases p) auto
  from Cons.prems have "NormFlowEvents_loop pack ps =
      Inr (map (pixel_event pack) (filter (pixel_inlier pack) ps))"
    by (intro Cons.IH) auto
  with Cons.prems show ?case
    unfolding p by (simp add: pixel_simps Let_def)
qed

lemma raster_in_grids:
  assumes "pack_ok pack"
  shows "\<forall>(ey, ex) \<in> set (raster 0 (g_rows (pk_rawTimeSurfaceMap pack))
                                 (g_cols (pk_rawTimeSurfaceMap pack))).
           in_grid (pk_rawTimeSurfaceMap pack) ey ex \<and>
           in_grid (pk_polarityMap pack) ey ex \<and> in_grid (pk_inliersOccupy pack) ey ex"
  using assms by (auto simp: set_raster pack_ok_def in_grid_def)

text \<open>
  C10. For a pack whose maps have equal dimensions, \<open>ActiveEvents(dt)\<close> returns the null
  pointer exactly when every pixel fails a test (raw time below \<open>1E-3\<close>, or
  \<open>timestamp - t > dt\<close>), and \<open>NormFlowEvents()\<close> exactly when every pixel fails one of
  its tests (raw time below \<open>1E-3\<close>, or inlier occupancy 0). Neither call fails, and
  whatever either returns other than the null pointer is an array with at least one
  event: an empty array is never returned.
\<close>

theorem event_views_absent_when_empty:
  assumes "pack_ok pack"
  shows "(ActiveEvents pack dt = Inr None \<longleftrightarrow>
            (\<forall>ey ex. in_grid (pk_rawTimeSurfaceMap pack) ey ex \<longrightarrow>
               g_at (pk_rawTimeSurfaceMap pack) ey ex < 1 / 1000 \<or>
               pk_timestamp pack - g_at (pk_rawTimeSurfaceMap pack) ey ex > dt)) \<and>
         (ActiveEvents pack dt = Inr None \<or>
            (\<exists>arr. ActiveEvents pack dt = Inr (Some arr) \<and> ea_events arr \<noteq> [])) \<and>
         (NormFlowEvents pack = Inr None \<longleftrightarrow>
            (\<forall>ey ex. in_grid (pk_rawTimeSurfaceMap pack) ey ex \<longrightarrow>
               g_at (pk_rawTimeSurfaceMap pack) ey ex < 1 / 1000 \<or>
               g_at (pk_inliersOccupy pack) ey ex = 0)) \<and>
         (NormFlowEvents pack = Inr None \<or>
            (\<exists>arr. NormFlowEvents pack = Inr (Some arr) \<and> ea_events arr \<noteq> []))"
proof -
  let ?ps = "raster 0 (g_rows (pk_rawTimeSurfaceMap pack)) (g_cols (pk_rawTimeSurfaceMap pack))"
  have in_ps: "(ey, ex) \<in> set ?ps \<longleftrightarrow> in_grid (pk_rawTimeSurfaceMap pack) ey ex" for ey ex
    by (auto simp: set_raster in_grid_def)
  have a: "ActiveEvents_loop pack dt ?ps =
      Inr (map (pixel_event pack) (filter (pixel_active pack dt) ?ps))"
    using raster_in_grids [OF assms] by (intro ActiveEvents_loop_eq) auto
  have n: "NormFlowEvents_loop pack ?ps =
      Inr (map (pixel_event pack) (filter (pixel_inlier pack) ?ps))"
    using raster_in_grids [OF assms] by (intro NormFlowEvents_loop_eq) auto
  have ea: "filter (pixel_active pack dt) ?ps = [] \<longleftrightarrow>
      (\<forall>ey ex. in_grid (pk_rawTimeSurfaceMap pack) ey ex \<longrightarrow>
               g_at (pk_rawTimeSurfaceMap pack) ey ex < 1 / 1000 \<or>
               pk_timestamp pack - g_at (pk_rawTimeSurfaceMap pack) ey ex > dt)"
    unfolding filter_pairs_empty in_ps pixel_simps by auto
  have en: "filter (pixel_inlier pack) ?ps = [] \<longleftrightarrow>
      (\<forall>ey ex. in_grid (pk_rawTimeSurfaceMap pack) ey ex \<longrightarrow>
               g_at (pk_rawTimeSurfaceMap pack) ey ex < 1 / 1000 \<or>
               g_at (pk_inliersOccupy pack) ey ex = 0)"
    unfolding filter_pairs_empty in_ps pixel_simps by auto
  show ?thesis
    unfolding ea [symmetric] en [symmetric]
    by (simp add: ActiveEvents_def NormFlowEvents_def Let_def a n EventArray_Create_def)
qed

text \<open>
  Instances: \<open>idle_pack\<close> has no timestamped pixel and both views are null;
  \<open>busy_pack\<close> has one recent pixel outside the inlier mask, so the first view is an
  array of one event and the second is null.
\<close>

theorem event_views_absent_when_empty_witness:
  "pack_ok idle_pack \<and> ActiveEvents idle_pack 1 = Inr None \<and>
   NormFlowEvents idle_pack = Inr None \<and>
   pack_ok busy_pack \<and>
   ActiveEvents busy_pack 1 = Inr (Some (EventArray_Create 1 [Event_Create 1 (0, 1) True])) \<and>
   NormFlowEvents busy_pack = Inr None"
proof -
  have ok: "pack_ok idle_pack" "pack_ok busy_pack"
    by (simp_all add: pack_ok_def idle_pack_def busy_pack_def grid_const_def grid_set_def)
  have idle: "ActiveEvents idle_pack 1 = Inr None" "NormFlowEvents idle_pack = Inr None"
    using event_views_absent_when_empty [OF ok(1), of 1]
    by (simp_all add: idle_pack_def grid_const_def)
  have busy: "ActiveEvents busy_pack 1 =
      Inr (Some (EventArray_Create 1 [Event_Create 1 (0, 1) True]))"
    by (simp add: ActiveEvents_def busy_pack_def raster_def grid_const_def grid_set_def
          in_grid_def Let_def upto.simps Event_Create_def)
  have busy_n: "NormFlowEvents busy_pack = Inr None"
    using event_views_absent_when_empty [OF ok(2), of 1]
    by (simp add: busy_pack_def grid_const_def grid_set_def)
  show ?thesis using ok idle busy busy_n by simp
qed

section \<open>Properties of the optical-flow correspondence and the velocity factor\<close>

text \<open>
  C8. A correspondence constructed with depth \<open>d\<close> stores the inverse depth \<open>-1\<close> when
  \<open>d \<le> 1E-3\<close>, and \<open>1 / d\<close> otherwise.
\<close>

theorem invDepth_sentinel:
  "(d \<le> 1 / 1000 \<longrightarrow> invDepth (OpticalFlowCorr_Create ta xa ya d fr rs) = - 1) \<and>
   (\<not> d \<le> 1 / 1000 \<longrightarrow> invDepth (OpticalFlowCorr_Create ta xa ya d fr rs) = 1 / d)"
  by (simp add: OpticalFlowCorr_Create_def Let_def)

text \<open>Instances: depths 0 and exactly \<open>1E-3\<close> give the sentinel, depth 2 gives 1/2.\<close>

theorem invDepth_sentinel_witness:
  "invDepth (OpticalFlowCorr_Create (0, 1, 2) (5, 6, 7) (3, 3, 3) 0
      \<lparr>image_rows = 480\<rparr> 0) = - 1 \<and>
   invDepth (OpticalFlowCorr_Create (0, 1, 2) (5, 6, 7) (3, 3, 3) (1 / 1000)
      \<lparr>image_rows = 480\<rparr> 0) = - 1 \<and>
   invDepth (OpticalFlowCorr_Create (0, 1, 2) (5, 6, 7) (3, 3, 3) 2
      \<lparr>image_rows = 480\<rparr> 0) = 1 / 2"
  using invDepth_sentinel [of 0 "(0, 1, 2)" "(5, 6, 7)" "(3, 3, 3)" "\<lparr>image_rows = 480\<rparr>" 0]
    invDepth_sentinel [of "1 / 1000" "(0, 1, 2)" "(5, 6, 7)" "(3, 3, 3)"
      "\<lparr>image_rows = 480\<rparr>" 0]
    invDepth_sentinel [of 2 "(0, 1, 2)" "(5, 6, 7)" "(3, 3, 3)" "\<lparr>image_rows = 480\<rparr>" 0]
  by simp

text \<open>
  The spec-modelled difference formula is the derivative it is said to be: on the samples
  of a quadratic at three distinct abscissas it returns the slope at the middle one.
\<close>

lemma Lagrange_exact_on_quadratics:
  assumes "x0 \<noteq> x1" "x1 \<noteq> x2" "x0 \<noteq> x2"
  shows "LagrangePolynomialTripleMidFOD (x0, x1, x2)
           (a * x0 * x0 + b * x0 + c, a * x1 * x1 + b * x1 + c, a * x2 * x2 + b * x2 + c)
         = 2 * a * x1 + b"
proof -
  have d: "x0 - x1 \<noteq> 0" "x0 - x2 \<noteq> 0" "x1 - x0 \<noteq> 0" "x1 - x2 \<noteq> 0"
    "x2 - x0 \<noteq> 0" "x2 - x1 \<noteq> 0"
    using assms by auto
  show ?thesis
    unfolding LagrangePolynomialTripleMidFOD_def prod.case
    using d by (simp add: divide_simps) (simp add: algebra_simps)
qed

lemma mat23_scale_vec: "mat23_vec (mat23_scale k m) v = vec2_scale k (mat23_vec m v)"
  by (cases m; cases v)
     (auto simp: mat23_vec_def mat23_scale_def vec2_scale_def vec3_scale_def dot3_def
        algebra_simps split: prod.splits)



text \<open>
  C5. In the predicted pixel velocity the contribution of the linear velocity through
  \<open>subAMat\<close> is scaled by \<open>DEPTH_INFO / (ALPHA + BETA \<cdot> DEPTH_INFO)\<close> in the inverse-depth
  variant, where \<open>DEPTH_INFO\<close> is the inverse depth, and by
  \<open>1 / (ALPHA \<cdot> DEPTH_INFO + BETA)\<close> in the depth variant, where it is the depth; the
  angular contribution through \<open>subBMat\<close> is added unscaled. The variant is the template
  argument \<open>IsInvDepth\<close>. The statement is for a nonzero denominator, where the real
  quotient is the one the code computes.
\<close>

theorem pred_depth_scaling:
  "(ALPHA + BETA * DEPTH_INFO \<noteq> 0 \<longrightarrow>
      factor_pred True ALPHA BETA DEPTH_INFO subAMat subBMat lin ang =
        vec2_add (vec2_scale (DEPTH_INFO / (ALPHA + BETA * DEPTH_INFO)) (mat23_vec subAMat lin))
                 (mat23_vec subBMat ang)) \<and>
   (ALPHA * DEPTH_INFO + BETA \<noteq> 0 \<longrightarrow>
      factor_pred False ALPHA BETA DEPTH_INFO subAMat subBMat lin ang =
        vec2_add (vec2_scale (1 / (ALPHA * DEPTH_INFO + BETA)) (mat23_vec subAMat lin))
                 (mat23_vec subBMat ang))"
  by (simp add: factor_pred_def mat23_scale_vec)

text \<open>
  Instances with \<open>ALPHA = BETA = 1\<close>, a zero angular part, and \<open>subAMat\<close> for focal
  lengths 2 at the pixel offset (1, 1): inverse depth 1 scales by 1/2, depth 3 by 1/4.
\<close>

theorem pred_depth_scaling_witness:
  "factor_pred True 1 1 1 ((- 2, 0, 1), (0, - 2, 1)) ((0, 0, 0), (0, 0, 0)) (4, 6, 8) (0, 0, 0)
     = (0, - 2) \<and>
   factor_pred False 1 1 3 ((- 2, 0, 1), (0, - 2, 1)) ((0, 0, 0), (0, 0, 0)) (4, 6, 8) (0, 0, 0)
     = (0, - 1)"
proof -
  have a: "(1::real) + 1 * 1 \<noteq> 0" and b: "(1::real) * 3 + 1 \<noteq> 0" by simp_all
  from pred_depth_scaling [of 1 1 1 "((- 2, 0, 1), (0, - 2, 1))" "((0, 0, 0), (0, 0, 0))"
      "(4, 6, 8)" "(0, 0, 0)"] a
  have t: "factor_pred True 1 1 1 ((- 2, 0, 1), (0, - 2, 1)) ((0, 0, 0), (0, 0, 0)) (4, 6, 8)
        (0, 0, 0) =
      vec2_add (vec2_scale (1 / (1 + 1 * 1)) (mat23_vec ((- 2, 0, 1), (0, - 2, 1)) (4, 6, 8)))
        (mat23_vec ((0, 0, 0), (0, 0, 0)) (0, 0, 0))" by blast
  from pred_depth_scaling [of 1 1 3 "((- 2, 0, 1), (0, - 2, 1))" "((0, 0, 0), (0, 0, 0))"
      "(4, 6, 8)" "(0, 0, 0)"] b
  have f: "factor_pred False 1 1 3 ((- 2, 0, 1), (0, - 2, 1)) ((0, 0, 0), (0, 0, 0)) (4, 6, 8)
        (0, 0, 0) =
      vec2_add (vec2_scale (1 / (1 * 3 + 1)) (mat23_vec ((- 2, 0, 1), (0, - 2, 1)) (4, 6, 8)))
        (mat23_vec ((0, 0, 0), (0, 0, 0)) (0, 0, 0))" by blast
  show ?thesis unfolding t f
    by (simp add: vec2_add_def vec2_scale_def mat23_vec_def dot3_def)
qed

end
